theory Spec2Isabelle
  imports Main "HOL-Library.Sublist"
begin

section \<open>Data model of the context symbol table\<close>

text \<open>
  Modelled from the spec: the enumerations of \<^verbatim>\<open>types.js\<close> (the closed set of
  symbol kinds, the kind groups and the categories of actions), with the members that
  \<^verbatim>\<open>ContextSymbolTable.ts\<close> names; the members it never names are gathered in one
  extra constructor each.
\<close>

datatype SymbolKind =
    Unknown | TokenVocab | Import | BuiltInLexerToken | VirtualLexerToken
  | FragmentLexerToken | LexerRule | BuiltInMode | LexerMode | BuiltInChannel
  | TokenChannel | ParserRule | Terminal | OtherKind string

datatype SymbolGroupKind =
    TokenRef | LexerModeGroup | TokenChannelGroup | RuleRef | OtherGroup

datatype CodeActionType =
    GlobalNamed | LocalNamed | ParserAction | LexerAction | ParserPredicate | LexerPredicate

text \<open>
  Modelled from the spec: the runtime class of a symbol object, as \<^verbatim>\<open>instanceof\<close>
  tests it, is a tag on the symbol. The classes that the table imports from
  \<^verbatim>\<open>parser-symbols/\<close> are listed by name; any other class (options, terminals,
  references, ...) is \<open>OtherSymbol\<close>. The listed classes are taken to be unrelated by
  inheritance, so \<^verbatim>\<open>s instanceof C\<close> is \<open>symClass s = C\<close>.
\<close>

datatype SymbolClass =
    BuiltInChannelSymbol | BuiltInModeSymbol | BuiltInTokenSymbol | FragmentTokenSymbol
  | GlobalNamedActionSymbol | ImportSymbol | LexerModeSymbol | LexerPredicateSymbol
  | LocalNamedActionSymbol | RuleSymbol | TokenChannelSymbol | TokenSymbol
  | VirtualTokenSymbol | OtherSymbol string

text \<open>
  Modelled from the spec: a parse-tree node of the parser library, as far as the table
  reads it: its source interval (start and end token index), its text, its line/column
  span and its children. The descriptive record and the definition span are those of
  the spec's output interface; columns and rows are integers.
\<close>

record Position =
  column :: int
  row :: int

record LexicalRange =
  startPos :: Position
  endPos :: Position

datatype ParseTree =
  ParseTree (getSourceInterval: "int \<times> int") (getText: string) (span: LexicalRange)
    (ptChildren: "ParseTree list")

record IDefinition =
  rangeDef :: LexicalRange

record ISymbolInfo =
  kind :: SymbolKind
  name :: string
  source :: string
  definitionInfo :: "IDefinition option"
  description :: "string option"

text \<open>
  Modelled from the spec: the source-file record that owns a table
  (\<^verbatim>\<open>ISourceContext\<close>), with the two fields the table reads, a file identifier and
  a display file name. Its method \<^verbatim>\<open>removeDependency\<close> acts on state outside the
  table; a call is recorded as the pair (receiver, argument).
\<close>

record ISourceContext =
  sourceId :: string
  fileName :: string

type_synonym OwnerCall = "ISourceContext \<times> ISourceContext"

text \<open>
  Modelled from the spec: a symbol object has a name, a class and an optional
  syntax-tree anchor (\<^verbatim>\<open>context\<close>); these are the fields of the library's
  \<^verbatim>\<open>BaseSymbol\<close> that the table reads. \<open>oid\<close> is the identity of the object (two
  objects are the same object iff their identities agree). A \<^verbatim>\<open>ScopedSymbol\<close> also
  owns an ordered list of children.
\<close>

record SymbolData =
  symName :: string
  symClass :: SymbolClass
  symContext :: "ParseTree option"
  oid :: nat

datatype Symbol = BaseSymbol SymbolData | ScopedSymbol SymbolData "Symbol list"

fun symData :: "Symbol \<Rightarrow> SymbolData" where
  "symData (BaseSymbol d) = d"
| "symData (ScopedSymbol d cs) = d"

fun symChildren :: "Symbol \<Rightarrow> Symbol list" where
  "symChildren (BaseSymbol d) = []"
| "symChildren (ScopedSymbol d cs) = cs"

fun isScoped :: "Symbol \<Rightarrow> bool" where
  "isScoped (BaseSymbol d) = False"
| "isScoped (ScopedSymbol d cs) = True"

abbreviation nameOf :: "Symbol \<Rightarrow> string" where
  "nameOf s \<equiv> symName (symData s)"

abbreviation classOf :: "Symbol \<Rightarrow> SymbolClass" where
  "classOf s \<equiv> symClass (symData s)"

abbreviation contextOf :: "Symbol \<Rightarrow> ParseTree option" where
  "contextOf s \<equiv> symContext (symData s)"

text \<open>
  The table: the ordered children and the ordered dependency tables that it inherits
  from the library's \<^verbatim>\<open>SymbolTable\<close>, and the fields that
  \<^verbatim>\<open>ContextSymbolTable\<close> declares (owner, tree, reference counts, five caches). A
  dependency that is a plain \<^verbatim>\<open>SymbolTable\<close> has no owner field; it is a table with
  \<open>owner = None\<close>, so that \<^verbatim>\<open>dep instanceof ContextSymbolTable && dep.owner\<close> is
  \<open>owner dep \<noteq> None\<close>.
\<close>

datatype ContextSymbolTable =
  ContextSymbolTable
    (tableName: string)
    (owner: "ISourceContext option")
    (tree: "ParseTree option")
    (children: "Symbol list")
    (dependencies: "ContextSymbolTable list")
    (symbolReferences: "(string \<times> nat) list")
    (namedActions: "Symbol list")
    (parserActions: "Symbol list")
    (lexerActions: "Symbol list")
    (parserPredicates: "Symbol list")
    (lexerPredicates: "Symbol list")

text \<open>The constructor: an empty table with the given name and owner.\<close>

definition newTable :: "string \<Rightarrow> ISourceContext option \<Rightarrow> ContextSymbolTable" where
  "newTable n ow = ContextSymbolTable n ow None [] [] [] [] [] [] [] []"

section \<open>Caches of actions and predicates\<close>

fun defineNamedAction :: "Symbol \<Rightarrow> ContextSymbolTable \<Rightarrow> ContextSymbolTable" where
  "defineNamedAction action (ContextSymbolTable n ow tr ch deps refs na pa la pp lp) =
     ContextSymbolTable n ow tr ch deps refs (na @ [action]) pa la pp lp"

fun defineParserAction :: "Symbol \<Rightarrow> ContextSymbolTable \<Rightarrow> ContextSymbolTable" where
  "defineParserAction action (ContextSymbolTable n ow tr ch deps refs na pa la pp lp) =
     ContextSymbolTable n ow tr ch deps refs na (pa @ [action]) la pp lp"

fun defineLexerAction :: "Symbol \<Rightarrow> ContextSymbolTable \<Rightarrow> ContextSymbolTable" where
  "defineLexerAction action (ContextSymbolTable n ow tr ch deps refs na pa la pp lp) =
     ContextSymbolTable n ow tr ch deps refs na pa (la @ [action]) pp lp"

fun definePredicate :: "Symbol \<Rightarrow> ContextSymbolTable \<Rightarrow> ContextSymbolTable" where
  "definePredicate predicate (ContextSymbolTable n ow tr ch deps refs na pa la pp lp) =
     (if classOf predicate = LexerPredicateSymbol
      then ContextSymbolTable n ow tr ch deps refs na pa la pp (lp @ [predicate])
      else ContextSymbolTable n ow tr ch deps refs na pa la (pp @ [predicate]) lp)"

fun actionListOfType :: "ContextSymbolTable \<Rightarrow> CodeActionType \<Rightarrow> Symbol list" where
  "actionListOfType T LocalNamed =
     filter (\<lambda>symbol. classOf symbol = LocalNamedActionSymbol) (namedActions T)"
| "actionListOfType T ParserAction = parserActions T"
| "actionListOfType T LexerAction = lexerActions T"
| "actionListOfType T ParserPredicate = parserPredicates T"
| "actionListOfType T LexerPredicate = lexerPredicates T"
| "actionListOfType T GlobalNamed =
     filter (\<lambda>symbol. classOf symbol = GlobalNamedActionSymbol) (namedActions T)"

text \<open>
  The reference counter is a JavaScript \<^verbatim>\<open>Map\<close>: an association list in insertion
  order, where setting an existing key keeps its place. A stored count of 0 is falsy and
  is reset to 1, as the source does.
\<close>

fun mapGet :: "(string \<times> nat) list \<Rightarrow> string \<Rightarrow> nat option" where
  "mapGet [] k = None"
| "mapGet ((k', v) # m) k = (if k' = k then Some v else mapGet m k)"

fun mapSet :: "(string \<times> nat) list \<Rightarrow> string \<Rightarrow> nat \<Rightarrow> (string \<times> nat) list" where
  "mapSet [] k v = [(k, v)]"
| "mapSet ((k', v') # m) k v = (if k' = k then (k, v) # m else (k', v') # mapSet m k v)"

fun incrementSymbolRefCount :: "string \<Rightarrow> ContextSymbolTable \<Rightarrow> ContextSymbolTable" where
  "incrementSymbolRefCount symbolName (ContextSymbolTable n ow tr ch deps refs na pa la pp lp) =
     ContextSymbolTable n ow tr ch deps
       (case mapGet refs symbolName of
          Some reference \<Rightarrow>
            if reference \<noteq> 0 then mapSet refs symbolName (reference + 1)
            else mapSet refs symbolName 1
        | None \<Rightarrow> mapSet refs symbolName 1)
       na pa la pp lp"

definition getReferenceCount :: "ContextSymbolTable \<Rightarrow> string \<Rightarrow> nat" where
  "getReferenceCount T symbolName =
     (case mapGet (symbolReferences T) symbolName of
        Some reference \<Rightarrow> if reference \<noteq> 0 then reference else 0
      | None \<Rightarrow> 0)"

section \<open>Lookup: the library's scoped resolution\<close>

text \<open>
  Modelled from the spec: the lookup \<^verbatim>\<open>resolveSync\<close> of the library
  \<^verbatim>\<open>antlr4-c3\<close>. Resolution first tries the table itself, the first of its
  children of that name; when that fails and the lookup is not local, it iterates the
  dependencies in insertion order and returns the first match.

  A resolved symbol is paired with the owner of the table that holds it: every use of
  \<^verbatim>\<open>symbol.symbolTable\<close> and \<^verbatim>\<open>symbol.root\<close> in the source reads only
  \<^verbatim>\<open>.owner\<close> from it.
\<close>

type_synonym Resolved = "Symbol \<times> ISourceContext option"

fun resolveSync :: "ContextSymbolTable \<Rightarrow> string \<Rightarrow> bool \<Rightarrow> Resolved option" where
  "resolveSync (ContextSymbolTable n ow tr ch deps refs na pa la pp lp) nm localOnly =
     (case find (\<lambda>child. nameOf child = nm) ch of
        Some child \<Rightarrow> Some (child, ow)
      | None \<Rightarrow>
          if localOnly then None
          else (case filter (\<lambda>r. r \<noteq> None)
                       (map (\<lambda>dependency. resolveSync dependency nm False) deps) of
                  [] \<Rightarrow> None
                | r # _ \<Rightarrow> r))"

text \<open>
  Modelled from the spec: the same lookup started at a top-level symbol of table \<open>T\<close>
  (\<^verbatim>\<open>symbol.resolveSync\<close>). A scoped symbol scans its own children and, unless the
  lookup is local, lets its parent, the table, continue; a plain symbol delegates to its
  parent at once.
\<close>

fun resolveSyncIn :: "ContextSymbolTable \<Rightarrow> Symbol \<Rightarrow> string \<Rightarrow> bool \<Rightarrow> Resolved option" where
  "resolveSyncIn T (BaseSymbol d) nm localOnly = resolveSync T nm localOnly"
| "resolveSyncIn T (ScopedSymbol d cs) nm localOnly =
     (case find (\<lambda>child. nameOf child = nm) cs of
        Some child \<Rightarrow> Some (child, owner T)
      | None \<Rightarrow> if localOnly then None else resolveSync T nm False)"

section \<open>Kind-directed lookups\<close>

definition getSymbolOfType ::
  "ContextSymbolTable \<Rightarrow> string \<Rightarrow> SymbolKind \<Rightarrow> bool \<Rightarrow> Resolved option" where
  "getSymbolOfType T nm knd localOnly =
     (case knd of
        TokenVocab \<Rightarrow>
          (case resolveSync T ''options'' True of
             Some options \<Rightarrow> resolveSyncIn T (fst options) nm localOnly
           | None \<Rightarrow> None)
      | Import \<Rightarrow> resolveSync T nm localOnly
      | BuiltInLexerToken \<Rightarrow> resolveSync T nm localOnly
      | VirtualLexerToken \<Rightarrow> resolveSync T nm localOnly
      | FragmentLexerToken \<Rightarrow> resolveSync T nm localOnly
      | LexerRule \<Rightarrow> resolveSync T nm localOnly
      | BuiltInMode \<Rightarrow> resolveSync T nm localOnly
      | LexerMode \<Rightarrow> resolveSync T nm localOnly
      | BuiltInChannel \<Rightarrow> resolveSync T nm localOnly
      | TokenChannel \<Rightarrow> resolveSync T nm localOnly
      | ParserRule \<Rightarrow> resolveSync T nm localOnly
      | _ \<Rightarrow> None)"

definition symbolExists :: "ContextSymbolTable \<Rightarrow> string \<Rightarrow> SymbolKind \<Rightarrow> bool \<Rightarrow> bool" where
  "symbolExists T nm knd localOnly = (getSymbolOfType T nm knd localOnly \<noteq> None)"

fun symbolExistsInGroup ::
  "ContextSymbolTable \<Rightarrow> string \<Rightarrow> SymbolGroupKind \<Rightarrow> bool \<Rightarrow> bool" where
  "symbolExistsInGroup T symbol TokenRef localOnly =
     (if symbolExists T symbol BuiltInLexerToken localOnly then True
      else if symbolExists T symbol VirtualLexerToken localOnly then True
      else if symbolExists T symbol FragmentLexerToken localOnly then True
      else if symbolExists T symbol LexerRule localOnly then True
      else False)"
| "symbolExistsInGroup T symbol LexerModeGroup localOnly =
     (if symbolExists T symbol BuiltInMode localOnly then True
      else if symbolExists T symbol LexerMode localOnly then True
      else False)"
| "symbolExistsInGroup T symbol TokenChannelGroup localOnly =
     (if symbolExists T symbol BuiltInChannel localOnly then True
      else if symbolExists T symbol TokenChannel localOnly then True
      else False)"
| "symbolExistsInGroup T symbol RuleRef localOnly =
     (if symbolExists T symbol ParserRule localOnly then True else False)"
| "symbolExistsInGroup T symbol OtherGroup localOnly = False"

definition contextForSymbol ::
  "ContextSymbolTable \<Rightarrow> string \<Rightarrow> SymbolKind \<Rightarrow> bool \<Rightarrow> ParseTree option" where
  "contextForSymbol T symbolName knd localOnly =
     (case getSymbolOfType T symbolName knd localOnly of
        None \<Rightarrow> None
      | Some symbol \<Rightarrow> contextOf (fst symbol))"

text \<open>
  The symbol class that each kind names in \<^verbatim>\<open>getSymbolOfType\<close>: the class of the
  type assertion on the looked-up symbol (\<^verbatim>\<open>as TokenSymbol\<close> for a lexer rule, and
  so on). The token-vocabulary case asserts no class.
\<close>

fun assertedClass :: "SymbolKind \<Rightarrow> SymbolClass option" where
  "assertedClass Import = Some ImportSymbol"
| "assertedClass BuiltInLexerToken = Some BuiltInTokenSymbol"
| "assertedClass VirtualLexerToken = Some VirtualTokenSymbol"
| "assertedClass FragmentLexerToken = Some FragmentTokenSymbol"
| "assertedClass LexerRule = Some TokenSymbol"
| "assertedClass BuiltInMode = Some BuiltInModeSymbol"
| "assertedClass LexerMode = Some LexerModeSymbol"
| "assertedClass BuiltInChannel = Some BuiltInChannelSymbol"
| "assertedClass TokenChannel = Some TokenChannelSymbol"
| "assertedClass ParserRule = Some RuleSymbol"
| "assertedClass _ = None"

section \<open>Descriptive records\<close>

text \<open>
  The two functions that the table imports from \<^verbatim>\<open>helpers.js\<close> are parameters of
  the model: the classification of a symbol object and the conversion of a parse-tree
  node (or \<^verbatim>\<open>undefined\<close>) to a definition span. Both are taken to return without
  throwing.
\<close>

record Helpers =
  getKindFromSymbol :: "Symbol \<Rightarrow> SymbolKind"
  definitionForContext :: "ParseTree option \<Rightarrow> IDefinition option"

text \<open>\<^verbatim>\<open>String.prototype.includes\<close>: the argument occurs as a contiguous substring.\<close>

fun includesStr :: "string \<Rightarrow> string \<Rightarrow> bool" where
  "includesStr [] sub = (sub = [])"
| "includesStr (c # cs) sub = (take (length sub) (c # cs) = sub \<or> includesStr cs sub)"

text \<open>\<^verbatim>\<open>forEach\<close> runs a callback on every element and discards what it returns.\<close>

definition forEach :: "('a \<Rightarrow> 'b) \<Rightarrow> 'a list \<Rightarrow> unit" where
  "forEach callback xs = ()"

text \<open>The value of the callback of the token-vocabulary / import case.\<close>

definition dependencyInfoCallback ::
  "Helpers \<Rightarrow> SymbolKind \<Rightarrow> string \<Rightarrow> ContextSymbolTable \<Rightarrow> ISymbolInfo option" where
  "dependencyInfoCallback h knd nm table =
     (case owner table of
        Some ow \<Rightarrow>
          if includesStr (sourceId ow) nm
          then Some \<lparr>kind = knd, name = nm, source = fileName ow,
                     definitionInfo = definitionForContext h (tree table),
                     description = None\<rparr>
          else None
      | None \<Rightarrow> None)"

text \<open>
  The callback of the terminal case assigns to the variables \<^verbatim>\<open>symbol\<close> and
  \<^verbatim>\<open>kind\<close> of the enclosing function; the loop is a left fold over their values.
\<close>

definition terminalCallback ::
  "Helpers \<Rightarrow> string \<Rightarrow> Resolved \<times> SymbolKind \<Rightarrow> ContextSymbolTable \<Rightarrow> Resolved \<times> SymbolKind" where
  "terminalCallback h nm state table =
     (case resolveSync table nm False of
        Some actualSymbol \<Rightarrow> (actualSymbol, getKindFromSymbol h (fst actualSymbol))
      | None \<Rightarrow> state)"

definition symbolSource :: "Resolved \<Rightarrow> string" where
  "symbolSource symbol =
     (case contextOf (fst symbol) of
        Some c \<Rightarrow> (case snd symbol of Some ow \<Rightarrow> fileName ow | None \<Rightarrow> ''ANTLR runtime'')
      | None \<Rightarrow> ''ANTLR runtime'')"

definition getSymbolInfo ::
  "Helpers \<Rightarrow> ContextSymbolTable \<Rightarrow> string + Resolved \<Rightarrow> ISymbolInfo option" where
  "getSymbolInfo h T arg =
     (case (case arg of Inr s \<Rightarrow> Some s | Inl nm \<Rightarrow> resolveSync T nm False) of
        None \<Rightarrow> None
      | Some symbol0 \<Rightarrow>
          let kind0 = getKindFromSymbol h (fst symbol0);
              nm = nameOf (fst symbol0);
              state =
                (case kind0 of
                   TokenVocab \<Rightarrow>
                     (let ignored = forEach (dependencyInfoCallback h kind0 nm) (dependencies T)
                      in (symbol0, kind0))
                 | Import \<Rightarrow>
                     (let ignored = forEach (dependencyInfoCallback h kind0 nm) (dependencies T)
                      in (symbol0, kind0))
                 | Terminal \<Rightarrow> foldl (terminalCallback h nm) (symbol0, kind0) (dependencies T)
                 | _ \<Rightarrow> (symbol0, kind0))
          in Some \<lparr>kind = snd state, name = nm, source = symbolSource (fst state),
                    definitionInfo = definitionForContext h (contextOf (fst (fst state))),
                    description = None\<rparr>)"

section \<open>Listing actions\<close>

datatype error = TypeError

text \<open>
  \<^verbatim>\<open>toLowerCase\<close> on names written in ASCII: the letters A to Z are mapped to a to z.
\<close>

definition toLowerChar :: "char \<Rightarrow> char" where
  "toLowerChar c =
     (let n = (of_char c :: nat) in if 65 \<le> n \<and> n \<le> 90 then char_of (n + 32) else c)"

definition toLowerCase :: "string \<Rightarrow> string" where
  "toLowerCase s = map toLowerChar s"

text \<open>
  The body of the loop of \<^verbatim>\<open>listActions\<close> for one entry, up to the record that is
  pushed. \<^verbatim>\<open>entry.context!.getText()\<close> throws a \<^verbatim>\<open>TypeError\<close> when the entry has
  no context.
\<close>

definition widenSkip :: "IDefinition \<Rightarrow> IDefinition" where
  "widenSkip d =
     d\<lparr>rangeDef := (rangeDef d)\<lparr>endPos :=
         (endPos (rangeDef d))\<lparr>column := column (startPos (rangeDef d)) + 3\<rparr>\<rparr>\<rparr>"

definition actionEntryInfo ::
  "Helpers \<Rightarrow> ContextSymbolTable \<Rightarrow> Symbol \<Rightarrow> error + ISymbolInfo" where
  "actionEntryInfo h T entry =
     (let definition0 = definitionForContext h (contextOf entry);
          definition1 =
            (case definition0 of
               Some d \<Rightarrow> if toLowerCase (nameOf entry) = ''skip'' then Some (widenSkip d) else Some d
             | None \<Rightarrow> None)
      in case contextOf entry of
           None \<Rightarrow> Inl TypeError
         | Some c \<Rightarrow>
             Inr \<lparr>kind = getKindFromSymbol h entry, name = nameOf entry,
                  source = (case owner T of Some ow \<Rightarrow> fileName ow | None \<Rightarrow> []),
                  definitionInfo = definition1,
                  description = Some (getText c)\<rparr>)"

text \<open>
  The loop inside \<^verbatim>\<open>try\<close>: it returns the records pushed so far, and the exception
  if one was thrown. \<^verbatim>\<open>result\<close> is declared outside \<^verbatim>\<open>try\<close>, so the handler
  sees what the loop has pushed.
\<close>

fun listActionsLoop ::
  "Helpers \<Rightarrow> ContextSymbolTable \<Rightarrow> Symbol list \<Rightarrow> ISymbolInfo list
     \<Rightarrow> ISymbolInfo list \<times> error option" where
  "listActionsLoop h T [] result = (result, None)"
| "listActionsLoop h T (entry # rest) result =
     (case actionEntryInfo h T entry of
        Inl e \<Rightarrow> (result, Some e)
      | Inr info \<Rightarrow> listActionsLoop h T rest (result @ [info]))"

definition errorInfo :: ISymbolInfo where
  "errorInfo =
     \<lparr>kind = Unknown, name = ''Error getting actions list'', source = [],
      definitionInfo = None,
      description =
        Some ''Internal error occurred while collecting the list of defined actions''\<rparr>"

definition listActions ::
  "Helpers \<Rightarrow> ContextSymbolTable \<Rightarrow> CodeActionType \<Rightarrow> ISymbolInfo list" where
  "listActions h T actionType =
     (case listActionsLoop h T (actionListOfType T actionType) [] of
        (result, None) \<Rightarrow> result
      | (result, Some e) \<Rightarrow> result @ [errorInfo])"

section \<open>Enumerating symbols\<close>

text \<open>
  The class argument of \<^verbatim>\<open>getAllSymbolsSync\<close>: \<^verbatim>\<open>BaseSymbol\<close> itself (every
  symbol is an instance) or one of the symbol classes.
\<close>

datatype SymbolConstructor = BaseSymbolCtor | ClassCtor SymbolClass

fun instanceOf :: "Symbol \<Rightarrow> SymbolConstructor \<Rightarrow> bool" where
  "instanceOf s BaseSymbolCtor = True"
| "instanceOf s (ClassCtor c) = (classOf s = c)"

text \<open>
  Modelled from the spec: the library's \<^verbatim>\<open>getAllSymbolsSync\<close> on a table gives the
  children of the class asked for in insertion order and, unless the lookup is local,
  those of the dependency tables in insertion order. (The library also descends into
  namespace symbols; a grammar table has none.) Each symbol comes with the owner of its
  root, the table that holds it.
\<close>

fun getAllSymbolsSync ::
  "ContextSymbolTable \<Rightarrow> SymbolConstructor \<Rightarrow> bool \<Rightarrow> Resolved list" where
  "getAllSymbolsSync (ContextSymbolTable n ow tr ch deps refs na pa la pp lp) t localOnly =
     map (\<lambda>child. (child, ow)) (filter (\<lambda>child. instanceOf child t) ch) @
     (if localOnly then []
      else concat (map (\<lambda>dependency. getAllSymbolsSync dependency t localOnly) deps))"

text \<open>
  \<^verbatim>\<open>new Set(symbols)\<close>: the elements in order of first insertion, one per object.
\<close>

abbreviation oidOf :: "Resolved \<Rightarrow> nat" where
  "oidOf r \<equiv> oid (symData (fst r))"

fun newSet :: "Resolved list \<Rightarrow> Resolved list" where
  "newSet [] = []"
| "newSet (x # xs) = x # newSet (filter (\<lambda>y. oidOf y \<noteq> oidOf x) xs)"

definition symbolInfoOf :: "Helpers \<Rightarrow> Resolved \<Rightarrow> ISymbolInfo" where
  "symbolInfoOf h symbol =
     \<lparr>kind = getKindFromSymbol h (fst symbol), name = nameOf (fst symbol),
      source = (case snd symbol of Some ow \<Rightarrow> fileName ow | None \<Rightarrow> ''ANTLR runtime''),
      definitionInfo = definitionForContext h (contextOf (fst symbol)),
      description = None\<rparr>"

definition symbolsOfType ::
  "Helpers \<Rightarrow> ContextSymbolTable \<Rightarrow> SymbolClass \<Rightarrow> bool \<Rightarrow> ISymbolInfo list" where
  "symbolsOfType h T t localOnly =
     map (symbolInfoOf h) (newSet (getAllSymbolsSync T (ClassCtor t) localOnly))"

definition tokenVocabInfo :: "Helpers \<Rightarrow> ContextSymbolTable \<Rightarrow> ISymbolInfo list" where
  "tokenVocabInfo h T =
     (case resolveSync T ''options'' True of
        Some options \<Rightarrow>
          (case resolveSyncIn T (fst options) ''tokenVocab'' True of
             Some tokenVocab \<Rightarrow>
               (case getSymbolInfo h T (Inr tokenVocab) of
                  Some v \<Rightarrow> [v]
                | None \<Rightarrow> [])
           | None \<Rightarrow> [])
      | None \<Rightarrow> [])"

definition listTopLevelSymbols ::
  "Helpers \<Rightarrow> ContextSymbolTable \<Rightarrow> bool \<Rightarrow> ISymbolInfo list" where
  "listTopLevelSymbols h T localOnly =
     tokenVocabInfo h T
     @ symbolsOfType h T ImportSymbol localOnly
     @ symbolsOfType h T BuiltInTokenSymbol localOnly
     @ symbolsOfType h T VirtualTokenSymbol localOnly
     @ symbolsOfType h T FragmentTokenSymbol localOnly
     @ symbolsOfType h T TokenSymbol localOnly
     @ symbolsOfType h T BuiltInModeSymbol localOnly
     @ symbolsOfType h T LexerModeSymbol localOnly
     @ symbolsOfType h T BuiltInChannelSymbol localOnly
     @ symbolsOfType h T TokenChannelSymbol localOnly
     @ symbolsOfType h T RuleSymbol localOnly"

section \<open>Occurrences of a name\<close>

text \<open>
  Modelled from the spec: the library's \<^verbatim>\<open>getAllNestedSymbolsSync\<close> gives the
  nested symbols of a scoped symbol that have the name, in depth-first order (every
  nested symbol when the name is empty).
\<close>

fun getAllNestedSymbolsSync :: "Symbol \<Rightarrow> string \<Rightarrow> Symbol list" where
  "getAllNestedSymbolsSync (BaseSymbol d) nm = []"
| "getAllNestedSymbolsSync (ScopedSymbol d cs) nm =
     concat (map (\<lambda>child. (if nm = [] \<or> nameOf child = nm then [child] else [])
                            @ getAllNestedSymbolsSync child nm) cs)"

text \<open>
  \<^verbatim>\<open>children[i]\<close> of a rule context: \<^verbatim>\<open>undefined\<close> out of range. The source
  asserts that the context of a fragment, token or rule symbol is a rule context, which
  has an array of children.
\<close>

definition childAt :: "ParseTree \<Rightarrow> nat \<Rightarrow> ParseTree option" where
  "childAt c i = (if i < length (ptChildren c) then Some (ptChildren c ! i) else None)"

definition symbolOccurrences :: "Helpers \<Rightarrow> string \<Rightarrow> Resolved \<Rightarrow> ISymbolInfo list" where
  "symbolOccurrences h symbolName entry =
     (let symbol = fst entry in
      case snd entry of
        None \<Rightarrow> []
      | Some ow \<Rightarrow>
          (case contextOf symbol of
             Some c \<Rightarrow>
               if nameOf symbol = symbolName
               then [\<lparr>kind = getKindFromSymbol h symbol, name = symbolName,
                      source = fileName ow,
                      definitionInfo = definitionForContext h
                        (if classOf symbol = FragmentTokenSymbol then childAt c 1
                         else if classOf symbol = TokenSymbol \<or> classOf symbol = RuleSymbol
                              then childAt c 0
                         else Some c),
                      description = None\<rparr>]
               else []
           | None \<Rightarrow> [])
          @ (if isScoped symbol
             then map (\<lambda>reference.
                         \<lparr>kind = getKindFromSymbol h reference, name = symbolName,
                          source = fileName ow,
                          definitionInfo = definitionForContext h (contextOf reference),
                          description = None\<rparr>)
                      (getAllNestedSymbolsSync symbol symbolName)
             else []))"

definition getSymbolOccurrences ::
  "Helpers \<Rightarrow> ContextSymbolTable \<Rightarrow> string \<Rightarrow> bool \<Rightarrow> ISymbolInfo list" where
  "getSymbolOccurrences h T symbolName localOnly =
     concat (map (symbolOccurrences h symbolName) (getAllSymbolsSync T BaseSymbolCtor localOnly))"

section \<open>The symbol containing a parse-tree node\<close>

text \<open>
  The interval test is a method of the parser library's \<^verbatim>\<open>Interval\<close>; the search
  takes it as its first argument, and the test that the code calls,
  \<^verbatim>\<open>properlyContains\<close>, is defined after the search. \<open>covers\<close> is the test of the
  loop: the symbol has a context whose source interval passes the test against the
  interval of the node.
\<close>

type_synonym Interval = "int \<times> int"

definition covers :: "(Interval \<Rightarrow> Interval \<Rightarrow> bool) \<Rightarrow> ParseTree \<Rightarrow> Symbol \<Rightarrow> bool" where
  "covers properlyContains node symbol =
     (case contextOf symbol of
        None \<Rightarrow> False
      | Some c \<Rightarrow> properlyContains (getSourceInterval c) (getSourceInterval node))"

fun findRecursive ::
  "(Interval \<Rightarrow> Interval \<Rightarrow> bool) \<Rightarrow> ParseTree \<Rightarrow> Symbol list \<Rightarrow> Symbol option" where
  "findRecursive properlyContains node [] = None"
| "findRecursive properlyContains node (BaseSymbol d # rest) =
     (if covers properlyContains node (BaseSymbol d) then Some (BaseSymbol d)
      else findRecursive properlyContains node rest)"
| "findRecursive properlyContains node (ScopedSymbol d cs # rest) =
     (if covers properlyContains node (ScopedSymbol d cs)
      then (case findRecursive properlyContains node cs of
              Some child \<Rightarrow> Some child
            | None \<Rightarrow> Some (ScopedSymbol d cs))
      else findRecursive properlyContains node rest)"

definition symbolContainingContext ::
  "(Interval \<Rightarrow> Interval \<Rightarrow> bool) \<Rightarrow> ContextSymbolTable \<Rightarrow> ParseTree \<Rightarrow> Symbol option" where
  "symbolContainingContext properlyContains T node =
     findRecursive properlyContains node (children T)"

text \<open>
  The test of the parser library antlr4ng, \<^verbatim>\<open>Interval.properlyContains\<close>:
  \<^verbatim>\<open>other.start >= this.start && other.stop <= this.stop\<close>. It is not strict: an
  interval passes the test against an equal interval. The table calls
  \<^verbatim>\<open>symbolContainingContext\<close> with this test.
\<close>

definition properlyContains :: "Interval \<Rightarrow> Interval \<Rightarrow> bool" where
  "properlyContains this other = (fst other \<ge> fst this \<and> snd other \<le> snd this)"

section \<open>Clearing a table\<close>

text \<open>
  \<^verbatim>\<open>clear\<close> returns the cleared table and the calls of \<^verbatim>\<open>removeDependency\<close> it
  has made, in order. Modelled from the spec: the library's \<^verbatim>\<open>super.clear()\<close>
  discards the underlying symbol storage, the children and the dependency set.
\<close>

definition clear :: "ContextSymbolTable \<Rightarrow> ContextSymbolTable \<times> OwnerCall list" where
  "clear T =
     (let calls =
        (case owner T of
           Some ow \<Rightarrow>
             concat (map (\<lambda>dep. case owner dep of Some depOwner \<Rightarrow> [(ow, depOwner)] | None \<Rightarrow> [])
                         (dependencies T))
         | None \<Rightarrow> [])
      in (ContextSymbolTable (tableName T) (owner T) (tree T) [] [] [] [] [] [] [] [], calls))"

section \<open>Notions used to state the properties\<close>

text \<open>
  The mutators of a table other than \<^verbatim>\<open>clear\<close>, as a datatype, so that a property
  can speak about every sequence of them.
\<close>

datatype TableOp =
    DefineNamedAction Symbol | DefineParserAction Symbol | DefineLexerAction Symbol
  | DefinePredicate Symbol | IncrementSymbolRefCount string

fun applyOp :: "ContextSymbolTable \<Rightarrow> TableOp \<Rightarrow> ContextSymbolTable" where
  "applyOp T (DefineNamedAction s) = defineNamedAction s T"
| "applyOp T (DefineParserAction s) = defineParserAction s T"
| "applyOp T (DefineLexerAction s) = defineLexerAction s T"
| "applyOp T (DefinePredicate s) = definePredicate s T"
| "applyOp T (IncrementSymbolRefCount n) = incrementSymbolRefCount n T"

text \<open>The predicates of one category that a sequence of mutators defines, in order.\<close>

fun definedLexerPredicates :: "TableOp list \<Rightarrow> Symbol list" where
  "definedLexerPredicates [] = []"
| "definedLexerPredicates (DefinePredicate s # ops) =
     (if classOf s = LexerPredicateSymbol then s # definedLexerPredicates ops
      else definedLexerPredicates ops)"
| "definedLexerPredicates (_ # ops) = definedLexerPredicates ops"

fun definedParserPredicates :: "TableOp list \<Rightarrow> Symbol list" where
  "definedParserPredicates [] = []"
| "definedParserPredicates (DefinePredicate s # ops) =
     (if classOf s = LexerPredicateSymbol then definedParserPredicates ops
      else s # definedParserPredicates ops)"
| "definedParserPredicates (_ # ops) = definedParserPredicates ops"

text \<open>
  Every symbol of a forest of symbols that covers the node, with its nesting depth
  (the depth of the first level is the argument).
\<close>

fun coveringSymbols ::
  "(Interval \<Rightarrow> Interval \<Rightarrow> bool) \<Rightarrow> ParseTree \<Rightarrow> nat \<Rightarrow> Symbol list \<Rightarrow> (nat \<times> Symbol) list" where
  "coveringSymbols pc node depth [] = []"
| "coveringSymbols pc node depth (BaseSymbol d # rest) =
     (if covers pc node (BaseSymbol d) then [(depth, BaseSymbol d)] else [])
     @ coveringSymbols pc node depth rest"
| "coveringSymbols pc node depth (ScopedSymbol d cs # rest) =
     (if covers pc node (ScopedSymbol d cs) then [(depth, ScopedSymbol d cs)] else [])
     @ coveringSymbols pc node (Suc depth) cs
     @ coveringSymbols pc node depth rest"

text \<open>
  The scopes are nested around the node: among siblings, after one that covers the
  node no other covers it, and nothing inside a symbol that does not cover the node
  covers it. A symbol table built from a parse tree is of this form, since the intervals
  of sibling declarations are disjoint and a declaration spans what it contains.
\<close>

fun nestedScopes ::
  "(Interval \<Rightarrow> Interval \<Rightarrow> bool) \<Rightarrow> ParseTree \<Rightarrow> Symbol list \<Rightarrow> bool" where
  "nestedScopes pc node [] = True"
| "nestedScopes pc node (BaseSymbol d # rest) =
     ((if covers pc node (BaseSymbol d) then list_all (\<lambda>s. \<not> covers pc node s) rest
       else True)
      \<and> nestedScopes pc node rest)"
| "nestedScopes pc node (ScopedSymbol d cs # rest) =
     ((if covers pc node (ScopedSymbol d cs) then list_all (\<lambda>s. \<not> covers pc node s) rest
       else coveringSymbols pc node 0 cs = [])
      \<and> nestedScopes pc node cs \<and> nestedScopes pc node rest)"

text \<open>The tables that a lookup which is not local visits: the table, then its dependencies.\<close>

fun allTables :: "ContextSymbolTable \<Rightarrow> ContextSymbolTable list" where
  "allTables (ContextSymbolTable n ow tr ch deps refs na pa la pp lp) =
     ContextSymbolTable n ow tr ch deps refs na pa la pp lp # concat (map allTables deps)"

text \<open>The occurrences that one table contributes.\<close>

definition tableOccurrences ::
  "Helpers \<Rightarrow> string \<Rightarrow> ContextSymbolTable \<Rightarrow> ISymbolInfo list" where
  "tableOccurrences h symbolName t =
     concat (map (\<lambda>symbol. symbolOccurrences h symbolName (symbol, owner t)) (children t))"




section \<open>Example data\<close>

text \<open>
  An instance of the two helper functions for the examples: a symbol named
  \<^verbatim>\<open>tokenVocab\<close> is the token-vocabulary option, a symbol of a class that
  \<^verbatim>\<open>getSymbolOfType\<close> asserts has the kind of that lookup, a terminal is a
  \<open>Terminal\<close>; the definition of a node is its span.
\<close>

definition kindOfClass :: "Symbol \<Rightarrow> SymbolKind" where
  "kindOfClass s =
     (if nameOf s = ''tokenVocab'' then TokenVocab
      else case classOf s of
             ImportSymbol \<Rightarrow> Import
           | BuiltInTokenSymbol \<Rightarrow> BuiltInLexerToken
           | VirtualTokenSymbol \<Rightarrow> VirtualLexerToken
           | FragmentTokenSymbol \<Rightarrow> FragmentLexerToken
           | TokenSymbol \<Rightarrow> LexerRule
           | BuiltInModeSymbol \<Rightarrow> BuiltInMode
           | LexerModeSymbol \<Rightarrow> LexerMode
           | BuiltInChannelSymbol \<Rightarrow> BuiltInChannel
           | TokenChannelSymbol \<Rightarrow> TokenChannel
           | RuleSymbol \<Rightarrow> ParserRule
           | OtherSymbol c \<Rightarrow> if c = ''TerminalSymbol'' then Terminal else OtherKind c
           | _ \<Rightarrow> OtherKind ''Action'')"

definition spanDefinition :: "ParseTree option \<Rightarrow> IDefinition option" where
  "spanDefinition c =
     (case c of None \<Rightarrow> None | Some n \<Rightarrow> Some \<lparr>rangeDef = span n\<rparr>)"

definition sampleHelpers :: Helpers where
  "sampleHelpers = \<lparr>getKindFromSymbol = kindOfClass, definitionForContext = spanDefinition\<rparr>"

text \<open>A node on row 1 with the given token interval, text and columns, and no children.\<close>

definition nodeAt :: "Interval \<Rightarrow> string \<Rightarrow> int \<Rightarrow> int \<Rightarrow> ParseTree" where
  "nodeAt iv txt c0 c1 =
     ParseTree iv txt
       \<lparr>startPos = \<lparr>column = c0, row = 1\<rparr>, endPos = \<lparr>column = c1, row = 1\<rparr>\<rparr> []"

definition sym :: "string \<Rightarrow> SymbolClass \<Rightarrow> ParseTree option \<Rightarrow> nat \<Rightarrow> SymbolData" where
  "sym n c ctx i = \<lparr>symName = n, symClass = c, symContext = ctx, oid = i\<rparr>"

definition lexerFile :: ISourceContext where
  "lexerFile = \<lparr>sourceId = ''Lexer.g4'', fileName = ''Lexer.g4''\<rparr>"

definition otherFile :: ISourceContext where
  "otherFile = \<lparr>sourceId = ''Other.g4'', fileName = ''Other.g4''\<rparr>"

definition parserFile :: ISourceContext where
  "parserFile = \<lparr>sourceId = ''Parser.g4'', fileName = ''Parser.g4''\<rparr>"

text \<open>Two lexer grammars that both declare the token PLUS.\<close>

definition lexerTable :: ContextSymbolTable where
  "lexerTable =
     ContextSymbolTable ''Lexer'' (Some lexerFile) None
       [ScopedSymbol (sym ''PLUS'' TokenSymbol (Some (nodeAt (0, 3) ''PLUS:+;'' 0 6)) 1) []]
       [] [] [] [] [] [] []"

definition otherTable :: ContextSymbolTable where
  "otherTable =
     ContextSymbolTable ''Other'' (Some otherFile) None
       [ScopedSymbol (sym ''PLUS'' TokenSymbol (Some (nodeAt (0, 3) ''PLUS:+;'' 0 6)) 2) []]
       [] [] [] [] [] [] []"

text \<open>
  A parser grammar with the rule \<^verbatim>\<open>expr\<close>, which refers to the token PLUS, and with an
  import of the grammar Lexer; its only dependency is the lexer grammar.
\<close>

definition plusReference :: Symbol where
  "plusReference =
     BaseSymbol (sym ''PLUS'' (OtherSymbol ''TerminalSymbol'') (Some (nodeAt (4, 4) ''PLUS'' 12 16)) 3)"

definition exprRule :: Symbol where
  "exprRule =
     ScopedSymbol (sym ''expr'' RuleSymbol (Some (nodeAt (2, 6) ''expr:exprPLUSexpr;'' 0 20)) 4)
       [plusReference]"

definition importSymbol :: Symbol where
  "importSymbol = BaseSymbol (sym ''Lexer'' ImportSymbol (Some (nodeAt (1, 1) ''Lexer'' 7 12)) 5)"

definition parserTable :: ContextSymbolTable where
  "parserTable =
     ContextSymbolTable ''Parser'' (Some parserFile) None [importSymbol, exprRule]
       [lexerTable] [] [] [] [] [] []"

text \<open>The same grammar with two dependencies that declare PLUS.\<close>

definition twoLexersTable :: ContextSymbolTable where
  "twoLexersTable =
     ContextSymbolTable ''Parser'' (Some parserFile) None [importSymbol, exprRule]
       [lexerTable, otherTable] [] [] [] [] [] []"

text \<open>A table whose only symbol is the parser rule \<^verbatim>\<open>expr\<close>, and one whose only symbol is a lexer mode.\<close>

definition ruleOnlyTable :: ContextSymbolTable where
  "ruleOnlyTable =
     ContextSymbolTable ''Parser'' (Some parserFile) None [exprRule] [] [] [] [] [] [] []"

definition modeOnlyTable :: ContextSymbolTable where
  "modeOnlyTable =
     ContextSymbolTable ''Lexer'' (Some lexerFile) None
       [BaseSymbol (sym ''ISLAND'' LexerModeSymbol (Some (nodeAt (0, 2) ''mode ISLAND;'' 0 12)) 6)]
       [] [] [] [] [] [] []"

text \<open>
  A table with three parser actions, the second without a context, and a table with the
  lexer actions \<^verbatim>\<open>skip\<close> (raw span of columns 4 to 5), \<^verbatim>\<open>Skip\<close> and \<^verbatim>\<open>more\<close>.
\<close>

definition actionA :: Symbol where
  "actionA = BaseSymbol (sym ''a'' (OtherSymbol ''ParserActionSymbol'') (Some (nodeAt (3, 5) ''{a();}'' 8 14)) 7)"

definition actionB :: Symbol where
  "actionB = BaseSymbol (sym ''b'' (OtherSymbol ''ParserActionSymbol'') None 8)"

definition actionC :: Symbol where
  "actionC = BaseSymbol (sym ''c'' (OtherSymbol ''ParserActionSymbol'') (Some (nodeAt (9, 11) ''{c();}'' 30 36)) 9)"

definition actionsTable :: ContextSymbolTable where
  "actionsTable =
     ContextSymbolTable ''Parser'' (Some parserFile) None [] [] [] []
       [actionA, actionB, actionC] [] [] []"

definition skipAction :: Symbol where
  "skipAction = BaseSymbol (sym ''skip'' (OtherSymbol ''LexerCommandSymbol'') (Some (nodeAt (7, 7) ''skip'' 4 5)) 10)"

definition upperSkipAction :: Symbol where
  "upperSkipAction = BaseSymbol (sym ''Skip'' (OtherSymbol ''LexerCommandSymbol'') (Some (nodeAt (17, 17) ''Skip'' 20 21)) 11)"

definition moreAction :: Symbol where
  "moreAction = BaseSymbol (sym ''more'' (OtherSymbol ''LexerCommandSymbol'') (Some (nodeAt (27, 27) ''more'' 10 14)) 12)"

definition skipTable :: ContextSymbolTable where
  "skipTable =
     ContextSymbolTable ''Lexer'' (Some lexerFile) None [] [] [] [] []
       [skipAction, upperSkipAction, moreAction] [] []"

text \<open>
  Nested scopes: scope A (tokens 0 to 20) holds scope B (tokens 5 to 15), which holds a
  symbol on tokens 12 to 14; a sibling of A lies on tokens 21 to 30. The target node
  lies on tokens 6 to 8.
\<close>

definition innerSymbol :: Symbol where
  "innerSymbol = BaseSymbol (sym ''C'' (OtherSymbol ''TerminalSymbol'') (Some (nodeAt (12, 14) ''C'' 0 1)) 13)"

definition scopeB :: Symbol where
  "scopeB = ScopedSymbol (sym ''B'' (OtherSymbol ''AlternativeSymbol'') (Some (nodeAt (5, 15) ''B'' 0 1)) 14) [innerSymbol]"

definition scopeA :: Symbol where
  "scopeA = ScopedSymbol (sym ''A'' RuleSymbol (Some (nodeAt (0, 20) ''A'' 0 1)) 15) [scopeB]"

definition siblingOfA :: Symbol where
  "siblingOfA = ScopedSymbol (sym ''D'' RuleSymbol (Some (nodeAt (21, 30) ''D'' 0 1)) 16) []"

definition nestedTable :: ContextSymbolTable where
  "nestedTable =
     ContextSymbolTable ''Parser'' (Some parserFile) None [scopeA, siblingOfA] [] [] [] [] [] [] []"

definition targetNode :: ParseTree where
  "targetNode = nodeAt (6, 8) ''x'' 0 1"

text \<open>
  Scopes that are not nested: two siblings X and Y on the same tokens 0 to 20, where
  only Y holds a symbol Z, on tokens 5 to 15.
\<close>

definition scopeX :: Symbol where
  "scopeX = ScopedSymbol (sym ''X'' RuleSymbol (Some (nodeAt (0, 20) ''X'' 0 1)) 20) []"

definition symbolZ :: Symbol where
  "symbolZ = BaseSymbol (sym ''Z'' (OtherSymbol ''TerminalSymbol'') (Some (nodeAt (5, 15) ''Z'' 0 1)) 21)"

definition scopeY :: Symbol where
  "scopeY = ScopedSymbol (sym ''Y'' RuleSymbol (Some (nodeAt (0, 20) ''Y'' 0 1)) 22) [symbolZ]"

definition overlapTable :: ContextSymbolTable where
  "overlapTable =
     ContextSymbolTable ''Parser'' (Some parserFile) None [scopeX, scopeY] [] [] [] [] [] [] []"

text \<open>A table without an owner whose dependency, the lexer grammar, has one.\<close>

definition ownerlessTable :: ContextSymbolTable where
  "ownerlessTable =
     ContextSymbolTable ''Scratch'' None None [exprRule] [lexerTable] [] [] [] [] [] []"

text \<open>
  A combined grammar whose declarations are not in the order of the listing: a rule, a
  token, a lexer mode, an import and a built-in token.
\<close>

definition mixedTable :: ContextSymbolTable where
  "mixedTable =
     ContextSymbolTable ''Mixed'' (Some parserFile) None
       [exprRule,
        ScopedSymbol (sym ''PLUS'' TokenSymbol (Some (nodeAt (7, 9) ''PLUS:+;'' 0 6)) 17) [],
        BaseSymbol (sym ''ISLAND'' LexerModeSymbol (Some (nodeAt (10, 12) ''mode ISLAND;'' 0 12)) 18),
        importSymbol,
        BaseSymbol (sym ''EOF'' BuiltInTokenSymbol None 19)]
       [] [] [] [] [] [] []"

section \<open>Predicate caches\<close>

lemma applyOp_lexerPredicates:
  "lexerPredicates (applyOp T op) = lexerPredicates T @ definedLexerPredicates [op]"
  by (cases T; cases op) simp_all

lemma applyOp_parserPredicates:
  "parserPredicates (applyOp T op) = parserPredicates T @ definedParserPredicates [op]"
  by (cases T; cases op) simp_all

lemma definedLexerPredicates_Cons:
  "definedLexerPredicates (op # ops) = definedLexerPredicates [op] @ definedLexerPredicates ops"
  by (cases op) simp_all

lemma definedParserPredicates_Cons:
  "definedParserPredicates (op # ops) = definedParserPredicates [op] @ definedParserPredicates ops"
  by (cases op) simp_all

lemma lexerPredicates_foldl:
  "lexerPredicates (foldl applyOp T ops) = lexerPredicates T @ definedLexerPredicates ops"
proof (induction ops arbitrary: T)
  case Nil
  show ?case by simp
next
  case (Cons op ops)
  have "lexerPredicates (foldl applyOp T (op # ops)) =
        lexerPredicates (applyOp T op) @ definedLexerPredicates ops"
    using Cons.IH by simp
  also have "\<dots> = lexerPredicates T @ definedLexerPredicates [op] @ definedLexerPredicates ops"
    by (simp add: applyOp_lexerPredicates)
  finally show ?case
    using definedLexerPredicates_Cons [of op ops] by simp
qed

lemma parserPredicates_foldl:
  "parserPredicates (foldl applyOp T ops) = parserPredicates T @ definedParserPredicates ops"
proof (induction ops arbitrary: T)
  case Nil
  show ?case by simp
next
  case (Cons op ops)
  have "parserPredicates (foldl applyOp T (op # ops)) =
        parserPredicates (applyOp T op) @ definedParserPredicates ops"
    using Cons.IH by simp
  also have "\<dots> = parserPredicates T @ definedParserPredicates [op] @ definedParserPredicates ops"
    by (simp add: applyOp_parserPredicates)
  finally show ?case
    using definedParserPredicates_Cons [of op ops] by simp
qed

lemma definedLexerPredicates_only_predicates:
  "definedLexerPredicates (map DefinePredicate ps) =
     filter (\<lambda>p. classOf p = LexerPredicateSymbol) ps"
  by (induction ps) simp_all

lemma definedParserPredicates_only_predicates:
  "definedParserPredicates (map DefinePredicate ps) =
     filter (\<lambda>p. classOf p \<noteq> LexerPredicateSymbol) ps"
  by (induction ps) simp_all

text \<open>
  Claim C8. Predicate indices follow insertion order and are stable. After any sequence
  of \<^verbatim>\<open>definePredicate\<close> calls on a new table, the cache of each category (which is
  what the accessor \<^verbatim>\<open>actionListOfType\<close> returns) is exactly the predicates of that
  category in the order of their definition, so the k-th one defined sits at index k-1.
  Whatever mutators other than \<^verbatim>\<open>clear\<close> are applied to a table afterwards, each
  cache keeps its old content as a prefix: a position once taken never changes.
\<close>

theorem predicate_indices_stable:
  "actionListOfType (foldl applyOp (newTable n ow) (map DefinePredicate ps)) LexerPredicate
     = filter (\<lambda>p. classOf p = LexerPredicateSymbol) ps
   \<and> actionListOfType (foldl applyOp (newTable n ow) (map DefinePredicate ps)) ParserPredicate
     = filter (\<lambda>p. classOf p \<noteq> LexerPredicateSymbol) ps
   \<and> lexerPredicates (foldl applyOp (newTable n ow) (map DefinePredicate ps))
     = filter (\<lambda>p. classOf p = LexerPredicateSymbol) ps
   \<and> parserPredicates (foldl applyOp (newTable n ow) (map DefinePredicate ps))
     = filter (\<lambda>p. classOf p \<noteq> LexerPredicateSymbol) ps
   \<and> take (length (lexerPredicates T)) (lexerPredicates (foldl applyOp T ops))
     = lexerPredicates T
   \<and> take (length (parserPredicates T)) (parserPredicates (foldl applyOp T ops))
     = parserPredicates T
   \<and> lexerPredicates (foldl applyOp T ops) = lexerPredicates T @ definedLexerPredicates ops
   \<and> parserPredicates (foldl applyOp T ops) = parserPredicates T @ definedParserPredicates ops"
proof -
  have new: "lexerPredicates (newTable n ow) = []" "parserPredicates (newTable n ow) = []"
    by (simp_all add: newTable_def)
  have l: "lexerPredicates (foldl applyOp (newTable n ow) (map DefinePredicate ps))
           = filter (\<lambda>p. classOf p = LexerPredicateSymbol) ps"
    by (simp add: lexerPredicates_foldl new definedLexerPredicates_only_predicates)
  have p: "parserPredicates (foldl applyOp (newTable n ow) (map DefinePredicate ps))
           = filter (\<lambda>p. classOf p \<noteq> LexerPredicateSymbol) ps"
    by (simp add: parserPredicates_foldl new definedParserPredicates_only_predicates)
  show ?thesis
    using l p by (simp add: lexerPredicates_foldl parserPredicates_foldl)
qed

section \<open>Listing actions: the failure boundary and the skip span\<close>

lemma listActionsLoop_accumulator:
  "listActionsLoop h T es acc =
     (acc @ fst (listActionsLoop h T es []), snd (listActionsLoop h T es []))"
proof (induction es arbitrary: acc)
  case Nil
  show ?case by simp
next
  case (Cons e es)
  show ?case
  proof (cases "actionEntryInfo h T e")
    case (Inl x)
    then show ?thesis by simp
  next
    case (Inr info)
    have a: "listActionsLoop h T (e # es) acc = listActionsLoop h T es (acc @ [info])"
      using Inr by simp
    have b: "listActionsLoop h T (e # es) [] = listActionsLoop h T es [info]"
      using Inr by simp
    show ?thesis
      unfolding a b using Cons.IH [of "acc @ [info]"] Cons.IH [of "[info]"] by simp
  qed
qed

lemma listActionsLoop_result:
  "listActionsLoop h T es [] =
     (map (projr \<circ> actionEntryInfo h T) (takeWhile (\<lambda>e. \<not> isl (actionEntryInfo h T e)) es),
      if list_ex (\<lambda>e. isl (actionEntryInfo h T e)) es then Some TypeError else None)"
proof (induction es)
  case Nil
  show ?case by simp
next
  case (Cons e es)
  show ?case
  proof (cases "actionEntryInfo h T e")
    case (Inl x)
    then show ?thesis by (cases x) simp
  next
    case (Inr info)
    have b: "listActionsLoop h T (e # es) [] = listActionsLoop h T es [info]"
      using Inr by simp
    show ?thesis
      unfolding b using listActionsLoop_accumulator [of h T es "[info]"] Cons.IH Inr by simp
  qed
qed

lemma listActions_result:
  "listActions h T ty =
     map (projr \<circ> actionEntryInfo h T)
       (takeWhile (\<lambda>e. \<not> isl (actionEntryInfo h T e)) (actionListOfType T ty))
     @ (if list_ex (\<lambda>e. isl (actionEntryInfo h T e)) (actionListOfType T ty)
        then [errorInfo] else [])"
  by (simp add: listActions_def listActionsLoop_result)

lemma actionEntryInfo_throws: "isl (actionEntryInfo h T e) = (contextOf e = None)"
  by (simp add: actionEntryInfo_def Let_def split: option.splits)

lemmas example_defs =
  sampleHelpers_def kindOfClass_def spanDefinition_def nodeAt_def sym_def
  lexerFile_def otherFile_def parserFile_def lexerTable_def otherTable_def
  plusReference_def exprRule_def importSymbol_def parserTable_def twoLexersTable_def
  ruleOnlyTable_def modeOnlyTable_def actionA_def actionB_def actionC_def actionsTable_def
  skipAction_def upperSkipAction_def moreAction_def skipTable_def innerSymbol_def
  scopeB_def scopeA_def siblingOfA_def nestedTable_def targetNode_def ownerlessTable_def
  mixedTable_def scopeX_def symbolZ_def scopeY_def overlapTable_def

lemma toLowerCase_examples:
  "toLowerCase ''skip'' = ''skip''" "toLowerCase ''Skip'' = ''skip''"
  "toLowerCase ''SKIP'' = ''skip''" "toLowerCase ''more'' = ''more''"
  by code_simp+

text \<open>
  Claim C4, as the code has it. \<^verbatim>\<open>listActions\<close> never propagates an exception: it
  always returns a list. When building the record of some entry throws, the list is
  the records of the entries before the first failing one, followed by exactly one
  synthetic record of kind \<open>Unknown\<close>; when no entry fails it is the records of all
  entries.
\<close>

theorem listActions_failure_boundary:
  "listActions h T ty =
     map (projr \<circ> actionEntryInfo h T)
       (takeWhile (\<lambda>e. \<not> isl (actionEntryInfo h T e)) (actionListOfType T ty))
     @ (if list_ex (\<lambda>e. isl (actionEntryInfo h T e)) (actionListOfType T ty)
        then [errorInfo] else [])
   \<and> kind errorInfo = Unknown"
  by (simp add: listActions_result errorInfo_def)

text \<open>
  Claim C4 as stated fails: with three parser actions of which the second has no
  context, building the second record throws, and the list that is returned holds the
  record of the first action and then the error record, not the error record alone.
\<close>

theorem listActions_single_record_counterexample:
  "actionListOfType actionsTable ParserAction = [actionA, actionB, actionC]
   \<and> actionEntryInfo sampleHelpers actionsTable actionB = Inl TypeError
   \<and> map name (listActions sampleHelpers actionsTable ParserAction)
       = [''a'', ''Error getting actions list'']
   \<and> listActions sampleHelpers actionsTable ParserAction \<noteq> [errorInfo]"
  by (simp add: listActions_def actionEntryInfo_def errorInfo_def Let_def example_defs)

lemma of_char_toLowerChar:
  "(of_char (toLowerChar c) :: nat) =
     (if 65 \<le> (of_char c :: nat) \<and> (of_char c :: nat) \<le> 90 then of_char c + 32 else of_char c)"
  by (simp add: toLowerChar_def Let_def)

lemma toLowerChar_eq_iff:
  assumes "(of_char l :: nat) = k" "(of_char u :: nat) = k - 32" "97 \<le> k" "k \<le> 122"
  shows "toLowerChar c = l \<longleftrightarrow> c = l \<or> c = u"
proof -
  have "toLowerChar c = l \<longleftrightarrow> (of_char (toLowerChar c) :: nat) = of_char l"
    by simp
  also have "\<dots> \<longleftrightarrow> (of_char c :: nat) = k \<or> (of_char c :: nat) = k - 32"
    using assms by (auto simp: of_char_toLowerChar)
  also have "\<dots> \<longleftrightarrow> (of_char c :: nat) = of_char l \<or> (of_char c :: nat) = of_char u"
    using assms by simp
  also have "\<dots> \<longleftrightarrow> c = l \<or> c = u"
    by simp
  finally show ?thesis .
qed

text \<open>
  On names of 8-bit characters the test of the source,
  \<^verbatim>\<open>name.toLowerCase() === "skip"\<close>, holds exactly for the sixteen spellings of
  \<^verbatim>\<open>skip\<close> in upper and lower case.
\<close>

lemma toLowerCase_skip_iff:
  "toLowerCase n = ''skip'' \<longleftrightarrow>
     (\<exists>a b c d. n = [a, b, c, d]
        \<and> (a = CHR ''s'' \<or> a = CHR ''S'') \<and> (b = CHR ''k'' \<or> b = CHR ''K'')
        \<and> (c = CHR ''i'' \<or> c = CHR ''I'') \<and> (d = CHR ''p'' \<or> d = CHR ''P''))"
proof -
  have s: "toLowerChar x = CHR ''s'' \<longleftrightarrow> x = CHR ''s'' \<or> x = CHR ''S''" for x
    by (rule toLowerChar_eq_iff [where k = 115]) simp_all
  have k: "toLowerChar x = CHR ''k'' \<longleftrightarrow> x = CHR ''k'' \<or> x = CHR ''K''" for x
    by (rule toLowerChar_eq_iff [where k = 107]) simp_all
  have i: "toLowerChar x = CHR ''i'' \<longleftrightarrow> x = CHR ''i'' \<or> x = CHR ''I''" for x
    by (rule toLowerChar_eq_iff [where k = 105]) simp_all
  have p: "toLowerChar x = CHR ''p'' \<longleftrightarrow> x = CHR ''p'' \<or> x = CHR ''P''" for x
    by (rule toLowerChar_eq_iff [where k = 112]) simp_all
  have "toLowerCase n = ''skip'' \<longleftrightarrow>
     (\<exists>a b c d. n = [a, b, c, d] \<and> toLowerChar a = CHR ''s'' \<and> toLowerChar b = CHR ''k''
        \<and> toLowerChar c = CHR ''i'' \<and> toLowerChar d = CHR ''p'')"
    unfolding toLowerCase_def
    by (cases n; cases "tl n"; cases "tl (tl n)"; cases "tl (tl (tl n))";
        cases "tl (tl (tl (tl n)))") simp_all
  then show ?thesis
    by (simp only: s k i p)
qed

text \<open>
  Claim C9. For every entry of the action list that is reported (every entry before the
  first one whose record cannot be built), the record carries the entry's name, and its
  definition is: absent when the entry has no definition; for a name that is
  \<^verbatim>\<open>skip\<close> in any of its sixteen spellings in upper and lower case, the raw
  definition with the end column replaced by
  the start column plus 3; for any other name, the raw definition unchanged.
\<close>

theorem listActions_skip_span:
  assumes "i < length (takeWhile (\<lambda>e. contextOf e \<noteq> None) (actionListOfType T ty))"
  shows "name (listActions h T ty ! i) = nameOf (actionListOfType T ty ! i)
    \<and> (case definitionForContext h (contextOf (actionListOfType T ty ! i)) of
         None \<Rightarrow> definitionInfo (listActions h T ty ! i) = None
       | Some d \<Rightarrow>
           if toLowerCase (nameOf (actionListOfType T ty ! i)) = ''skip''
           then \<exists>d'. definitionInfo (listActions h T ty ! i) = Some d'
                  \<and> column (endPos (rangeDef d')) = column (startPos (rangeDef d)) + 3
                  \<and> startPos (rangeDef d') = startPos (rangeDef d)
                  \<and> row (endPos (rangeDef d')) = row (endPos (rangeDef d))
           else definitionInfo (listActions h T ty ! i) = Some d)"
proof -
  let ?es = "actionListOfType T ty"
  let ?ok = "takeWhile (\<lambda>e. \<not> isl (actionEntryInfo h T e)) ?es"
  have ok: "?ok = takeWhile (\<lambda>e. contextOf e \<noteq> None) ?es"
    by (simp add: actionEntryInfo_throws)
  have i: "i < length ?ok" using assms ok by simp
  have nth_ok: "?ok ! i = ?es ! i"
    using i by (rule takeWhile_nth)
  have ctx: "contextOf (?es ! i) \<noteq> None"
    using nth_mem [OF i] nth_ok set_takeWhileD [of "?ok ! i" _ ?es]
    by (auto simp: actionEntryInfo_throws)
  have "listActions h T ty ! i = (map (projr \<circ> actionEntryInfo h T) ?ok) ! i"
    using i by (simp add: listActions_result nth_append)
  also have "\<dots> = projr (actionEntryInfo h T (?es ! i))"
    using i nth_ok by simp
  finally have rec: "listActions h T ty ! i = projr (actionEntryInfo h T (?es ! i))" .
  from ctx obtain c where c: "contextOf (?es ! i) = Some c" by blast
  show ?thesis
    unfolding rec
    by (simp add: actionEntryInfo_def c Let_def widenSkip_def split: option.splits)
qed

theorem listActions_skip_span_witness:
  "0 < length (takeWhile (\<lambda>e. contextOf e \<noteq> None) (actionListOfType skipTable LexerAction))
   \<and> nameOf (actionListOfType skipTable LexerAction ! 0) = ''skip''
   \<and> map_option (\<lambda>d. (column (startPos (rangeDef d)), column (endPos (rangeDef d))))
        (definitionForContext sampleHelpers (contextOf (actionListOfType skipTable LexerAction ! 0)))
       = Some (4, 5)
   \<and> (\<exists>d'. definitionInfo (listActions sampleHelpers skipTable LexerAction ! 0) = Some d'
          \<and> column (startPos (rangeDef d')) = 4 \<and> column (endPos (rangeDef d')) = 7)"
proof -
  have h: "0 < length (takeWhile (\<lambda>e. contextOf e \<noteq> None) (actionListOfType skipTable LexerAction))"
    by (simp add: example_defs)
  have raw: "definitionForContext sampleHelpers (contextOf (actionListOfType skipTable LexerAction ! 0))
      = Some \<lparr>rangeDef = \<lparr>startPos = \<lparr>column = 4, row = 1\<rparr>, endPos = \<lparr>column = 5, row = 1\<rparr>\<rparr>\<rparr>"
    by (simp add: example_defs)
  have nm: "nameOf (actionListOfType skipTable LexerAction ! 0) = ''skip''"
    by (simp add: example_defs)
  have "\<exists>d'. definitionInfo (listActions sampleHelpers skipTable LexerAction ! 0) = Some d'
          \<and> column (endPos (rangeDef d')) = 4 + 3
          \<and> startPos (rangeDef d') = \<lparr>column = 4, row = 1\<rparr>"
    using listActions_skip_span [OF h, of sampleHelpers]
    unfolding raw nm by (auto simp: toLowerCase_examples)
  then show ?thesis
    using h raw nm by auto
qed

section \<open>Kind-directed lookups and the descriptive record\<close>

lemma getSymbolOfType_asserted:
  "assertedClass knd \<noteq> None \<Longrightarrow> getSymbolOfType T nm knd localOnly = resolveSync T nm localOnly"
  by (cases knd) (simp_all add: getSymbolOfType_def)

lemma symbolExists_same_for_asserted_kinds:
  "assertedClass k1 \<noteq> None \<Longrightarrow> assertedClass k2 \<noteq> None \<Longrightarrow>
   symbolExists T nm k1 localOnly = symbolExists T nm k2 localOnly"
  by (simp add: symbolExists_def getSymbolOfType_asserted)

text \<open>
  Claim C1, evaluated on the code. The claim says that a lookup succeeds only for a
  symbol of the kind asked for, so that the token-reference group is false for a name
  that is only a parser rule. The lookup of \<^verbatim>\<open>getSymbolOfType\<close> never looks at the
  class of what it finds (its type assertions are erased at run time): in a table whose
  only symbol is the parser rule \<^verbatim>\<open>expr\<close>, the name exists as a lexer rule and in the
  token-reference group; likewise the name of a lexer mode exists as a token reference.
\<close>

theorem symbolExistsInGroup_parser_rule_as_token:
  "map classOf (children ruleOnlyTable) = [RuleSymbol]
   \<and> assertedClass LexerRule = Some TokenSymbol
   \<and> symbolExists ruleOnlyTable ''expr'' LexerRule True
   \<and> symbolExistsInGroup ruleOnlyTable ''expr'' TokenRef True
   \<and> map classOf (children modeOnlyTable) = [LexerModeSymbol]
   \<and> symbolExistsInGroup modeOnlyTable ''ISLAND'' TokenRef True"
  by (simp add: symbolExists_def getSymbolOfType_def example_defs)

lemma getSymbolInfo_import_ignores_dependencies:
  assumes "getKindFromSymbol h (fst symbol) = Import \<or> getKindFromSymbol h (fst symbol) = TokenVocab"
  shows "getSymbolInfo h T (Inr symbol) =
     Some \<lparr>kind = getKindFromSymbol h (fst symbol), name = nameOf (fst symbol),
            source = symbolSource symbol,
            definitionInfo = definitionForContext h (contextOf (fst symbol)),
            description = None\<rparr>"
  using assms by (auto simp: getSymbolInfo_def Let_def)

text \<open>
  Claim C2, evaluated on the code. The parser grammar imports the grammar Lexer, which
  is its direct dependency and whose file identifier contains the name. The callback
  over the dependencies builds the record with the source \<^verbatim>\<open>Lexer.g4\<close>, but
  \<^verbatim>\<open>forEach\<close> discards it: \<^verbatim>\<open>getSymbolInfo\<close> returns the record of the
  referencing table, with the source \<^verbatim>\<open>Parser.g4\<close>.
\<close>

theorem getSymbolInfo_import_source:
  "getKindFromSymbol sampleHelpers importSymbol = Import
   \<and> dependencies parserTable = [lexerTable]
   \<and> map_option source (dependencyInfoCallback sampleHelpers Import ''Lexer'' lexerTable)
       = Some ''Lexer.g4''
   \<and> map_option source (getSymbolInfo sampleHelpers parserTable (Inl ''Lexer''))
       = Some ''Parser.g4''"
  by (simp add: getSymbolInfo_def dependencyInfoCallback_def symbolSource_def forEach_def
      Let_def example_defs)

lemma terminalCallback_foldl:
  "foldl (terminalCallback h nm) state deps =
     (if filter (\<lambda>d. resolveSync d nm False \<noteq> None) deps = [] then state
      else (the (resolveSync (last (filter (\<lambda>d. resolveSync d nm False \<noteq> None) deps)) nm False),
            getKindFromSymbol h
              (fst (the (resolveSync (last (filter (\<lambda>d. resolveSync d nm False \<noteq> None) deps))
                           nm False)))))"
proof (induction deps rule: rev_induct)
  case Nil
  show ?case by simp
next
  case (snoc x xs)
  show ?case
  proof (cases "resolveSync x nm False")
    case None
    then show ?thesis using snoc.IH by (simp add: terminalCallback_def)
  next
    case (Some a)
    then show ?thesis
      by (simp add: terminalCallback_def)
  qed
qed

lemma resolveSync_first_dependency:
  assumes "find (\<lambda>c. nameOf c = nm) (children T) = None"
    and "dependencies T = pre @ T2 # post"
    and "list_all (\<lambda>d. resolveSync d nm False = None) pre"
    and "find (\<lambda>c. nameOf c = nm) (children T2) = Some a"
  shows "resolveSync T nm False = Some (a, owner T2)"
proof -
  have t2: "resolveSync T2 nm False = Some (a, owner T2)"
    using assms(4) by (cases T2) simp
  have pre: "filter (\<lambda>r. r \<noteq> None) (map (\<lambda>d. resolveSync d nm False) pre) = []"
    using assms(3) by (induction pre) simp_all
  show ?thesis
    using assms(1,2) t2 pre by (cases T) simp
qed

text \<open>
  Claim C3, as the code has it. For a symbol of kind \<open>Terminal\<close> whose name some
  direct dependency resolves, \<^verbatim>\<open>getSymbolInfo\<close> runs through all the dependencies in
  insertion order and every one that resolves the name replaces the symbol and the
  kind, so the record is built from the symbol of the last dependency that resolves
  it; when no dependency resolves the name the record is that of the symbol itself.
  In the scenario of the claim, a name that the table does not declare at its top level
  and that its first resolving dependency declares, with a context and an owner, is
  reported with the file name of that dependency.
\<close>

theorem getSymbolInfo_terminal_last_dependency:
  "(getKindFromSymbol h (fst symbol) = Terminal
      \<and> filter (\<lambda>d. resolveSync d (nameOf (fst symbol)) False \<noteq> None) (dependencies T) \<noteq> []
      \<and> resolveSync
           (last (filter (\<lambda>d. resolveSync d (nameOf (fst symbol)) False \<noteq> None) (dependencies T)))
           (nameOf (fst symbol)) False = Some actual
    \<longrightarrow> getSymbolInfo h T (Inr symbol) =
          Some \<lparr>kind = getKindFromSymbol h (fst actual), name = nameOf (fst symbol),
                 source = symbolSource actual,
                 definitionInfo = definitionForContext h (contextOf (fst actual)),
                 description = None\<rparr>)
   \<and> (getKindFromSymbol h (fst symbol) = Terminal
      \<and> filter (\<lambda>d. resolveSync d (nameOf (fst symbol)) False \<noteq> None) (dependencies T) = []
    \<longrightarrow> getSymbolInfo h T (Inr symbol) =
          Some \<lparr>kind = Terminal, name = nameOf (fst symbol),
                 source = symbolSource symbol,
                 definitionInfo = definitionForContext h (contextOf (fst symbol)),
                 description = None\<rparr>)
   \<and> (find (\<lambda>c. nameOf c = nm) (children T1) = None
      \<and> dependencies T1 = pre @ T2 # post
      \<and> list_all (\<lambda>d. resolveSync d nm False = None) pre
      \<and> find (\<lambda>c. nameOf c = nm) (children T2) = Some a
      \<and> contextOf a \<noteq> None \<and> owner T2 = Some ow
      \<and> getKindFromSymbol h a \<noteq> Terminal
    \<longrightarrow> map_option source (getSymbolInfo h T1 (Inl nm)) = Some (fileName ow))"
proof (intro conjI impI)
  assume a: "getKindFromSymbol h (fst symbol) = Terminal
      \<and> filter (\<lambda>d. resolveSync d (nameOf (fst symbol)) False \<noteq> None) (dependencies T) \<noteq> []
      \<and> resolveSync
           (last (filter (\<lambda>d. resolveSync d (nameOf (fst symbol)) False \<noteq> None) (dependencies T)))
           (nameOf (fst symbol)) False = Some actual"
  then show "getSymbolInfo h T (Inr symbol) =
          Some \<lparr>kind = getKindFromSymbol h (fst actual), name = nameOf (fst symbol),
                 source = symbolSource actual,
                 definitionInfo = definitionForContext h (contextOf (fst actual)),
                 description = None\<rparr>"
    by (simp add: getSymbolInfo_def Let_def terminalCallback_foldl)
next
  assume "getKindFromSymbol h (fst symbol) = Terminal
      \<and> filter (\<lambda>d. resolveSync d (nameOf (fst symbol)) False \<noteq> None) (dependencies T) = []"
  then show "getSymbolInfo h T (Inr symbol) =
          Some \<lparr>kind = Terminal, name = nameOf (fst symbol),
                 source = symbolSource symbol,
                 definitionInfo = definitionForContext h (contextOf (fst symbol)),
                 description = None\<rparr>"
    by (simp add: getSymbolInfo_def Let_def terminalCallback_foldl)
next
  assume b: "find (\<lambda>c. nameOf c = nm) (children T1) = None
      \<and> dependencies T1 = pre @ T2 # post
      \<and> list_all (\<lambda>d. resolveSync d nm False = None) pre
      \<and> find (\<lambda>c. nameOf c = nm) (children T2) = Some a
      \<and> contextOf a \<noteq> None \<and> owner T2 = Some ow
      \<and> getKindFromSymbol h a \<noteq> Terminal"
  then have r: "resolveSync T1 nm False = Some (a, Some ow)"
    using resolveSync_first_dependency [of nm T1 pre T2 post a] by simp
  have src: "symbolSource (a, Some ow) = fileName ow"
    using b by (auto simp: symbolSource_def)
  show "map_option source (getSymbolInfo h T1 (Inl nm)) = Some (fileName ow)"
    using b r src
    by (cases "getKindFromSymbol h a") (simp_all add: getSymbolInfo_def Let_def forEach_def)
qed

theorem getSymbolInfo_terminal_last_dependency_witness:
  "getKindFromSymbol sampleHelpers plusReference = Terminal
   \<and> filter (\<lambda>d. resolveSync d ''PLUS'' False \<noteq> None) (dependencies twoLexersTable)
       = [lexerTable, otherTable]
   \<and> map_option source (getSymbolInfo sampleHelpers twoLexersTable (Inr (plusReference, Some parserFile)))
       = Some ''Other.g4''
   \<and> find (\<lambda>c. nameOf c = ''PLUS'') (children parserTable) = None
   \<and> dependencies parserTable = [] @ lexerTable # []
   \<and> map_option source (getSymbolInfo sampleHelpers parserTable (Inl ''PLUS'')) = Some ''Lexer.g4''"
proof -
  let ?plus = "ScopedSymbol (sym ''PLUS'' TokenSymbol (Some (nodeAt (0, 3) ''PLUS:+;'' 0 6)) 2) []"
  let ?plus1 = "ScopedSymbol (sym ''PLUS'' TokenSymbol (Some (nodeAt (0, 3) ''PLUS:+;'' 0 6)) 1) []"
  have k: "getKindFromSymbol sampleHelpers plusReference = Terminal"
    by (simp add: example_defs)
  have f: "filter (\<lambda>d. resolveSync d ''PLUS'' False \<noteq> None) (dependencies twoLexersTable)
       = [lexerTable, otherTable]"
    by (simp add: example_defs)
  have l: "resolveSync otherTable ''PLUS'' False = Some (?plus, Some otherFile)"
    by (simp add: example_defs)
  have n: "nameOf plusReference = ''PLUS''"
    by (simp add: example_defs)
  have p1: "find (\<lambda>c. nameOf c = ''PLUS'') (children parserTable) = None"
    by (simp add: example_defs)
  have p2: "dependencies parserTable = [] @ lexerTable # []"
    by (simp add: example_defs)
  have p3: "find (\<lambda>c. nameOf c = ''PLUS'') (children lexerTable) = Some ?plus1"
    by (simp add: example_defs)
  have p4: "contextOf ?plus1 \<noteq> None" "owner lexerTable = Some lexerFile"
    "getKindFromSymbol sampleHelpers ?plus1 \<noteq> Terminal"
    by (simp_all add: example_defs)
  have s: "symbolSource (?plus, Some otherFile) = ''Other.g4''" "fileName lexerFile = ''Lexer.g4''"
    by (simp_all add: symbolSource_def example_defs)
  show ?thesis
    using getSymbolInfo_terminal_last_dependency
      [of sampleHelpers "(plusReference, Some parserFile)" twoLexersTable "(?plus, Some otherFile)"
          "''PLUS''" parserTable "[]" lexerTable "[]" ?plus1 lexerFile]
      k f l n p1 p2 p3 p4 s
    by simp
qed

text \<open>
  Claim C3 as stated fails: when the two dependencies of a table both declare PLUS, in
  the order Lexer, Other, the record of a terminal PLUS names the file of the second.
\<close>

theorem getSymbolInfo_terminal_first_dependency_counterexample:
  "getKindFromSymbol sampleHelpers plusReference = Terminal
   \<and> dependencies twoLexersTable = [lexerTable, otherTable]
   \<and> resolveSync lexerTable ''PLUS'' False \<noteq> None
   \<and> resolveSync otherTable ''PLUS'' False \<noteq> None
   \<and> map_option fileName (owner lexerTable) = Some ''Lexer.g4''
   \<and> map_option source
        (getSymbolInfo sampleHelpers twoLexersTable (Inr (plusReference, Some parserFile)))
       = Some ''Other.g4''"
  by (simp add: getSymbolInfo_def terminalCallback_def symbolSource_def Let_def example_defs)

section \<open>The innermost symbol around a node\<close>

lemma coveringSymbols_depth_shift:
  "coveringSymbols pc node (k + n) ss = map (\<lambda>(d, s). (d + k, s)) (coveringSymbols pc node n ss)"
  by (induction pc node n ss rule: coveringSymbols.induct) simp_all

lemma coveringSymbols_empty_any_depth:
  "coveringSymbols pc node n ss = [] \<Longrightarrow> coveringSymbols pc node m ss = []"
  using coveringSymbols_depth_shift [of pc node m 0 ss]
    coveringSymbols_depth_shift [of pc node n 0 ss]
  by simp

lemma coveringSymbols_depth_ge:
  "(d, s) \<in> set (coveringSymbols pc node n ss) \<Longrightarrow> n \<le> d"
  by (induction pc node n ss rule: coveringSymbols.induct) (auto split: if_splits)

lemma coveringSymbols_covers:
  "(d, s) \<in> set (coveringSymbols pc node n ss) \<Longrightarrow> covers pc node s"
  by (induction pc node n ss rule: coveringSymbols.induct) (auto split: if_splits)

lemma nestedScopes_no_cover:
  "nestedScopes pc node ss \<Longrightarrow> list_all (\<lambda>s. \<not> covers pc node s) ss \<Longrightarrow>
   coveringSymbols pc node n ss = []"
proof (induction pc node n ss rule: coveringSymbols.induct)
  case (1 pc node depth)
  show ?case by simp
next
  case (2 pc node depth d rest)
  then show ?case by simp
next
  case (3 pc node depth d cs rest)
  then show ?case
    using coveringSymbols_empty_any_depth [of pc node 0 cs "Suc depth"] by simp
qed

lemma findRecursive_None_iff:
  "findRecursive pc node ss = None \<longleftrightarrow> list_all (\<lambda>s. \<not> covers pc node s) ss"
  by (induction pc node ss rule: findRecursive.induct) (auto split: option.splits)

lemma findRecursive_Some_covers:
  "findRecursive pc node ss = Some s \<Longrightarrow> covers pc node s"
  by (induction pc node ss rule: findRecursive.induct) (auto split: option.splits if_splits)

lemma findRecursive_Some_member:
  "findRecursive pc node ss = Some s \<Longrightarrow> \<exists>d. (d, s) \<in> set (coveringSymbols pc node n ss)"
proof (induction pc node ss arbitrary: n s rule: findRecursive.induct)
  case (1 pc node)
  then show ?case by simp
next
  case (2 pc node d rest)
  then show ?case by (auto split: if_splits)
next
  case (3 pc node d cs rest)
  show ?case
  proof (cases "covers pc node (ScopedSymbol d cs)")
    case True
    show ?thesis
    proof (cases "findRecursive pc node cs")
      case None
      then show ?thesis using 3 True by auto
    next
      case (Some child)
      then have s: "s = child" using 3 True by simp
      have "\<exists>dd. (dd, child) \<in> set (coveringSymbols pc node (Suc n) cs)"
        using "3.IH"(1) [OF True Some] by simp
      then show ?thesis using s by auto
    qed
  next
    case False
    then have "\<exists>dd. (dd, s) \<in> set (coveringSymbols pc node n rest)"
      using 3 by simp
    then show ?thesis using False by auto
  qed
qed

lemma findRecursive_Some_no_child_covers:
  "findRecursive pc node ss = Some s \<Longrightarrow> list_all (\<lambda>c. \<not> covers pc node c) (symChildren s)"
proof (induction pc node ss rule: findRecursive.induct)
  case (1 pc node)
  then show ?case by simp
next
  case (2 pc node d rest)
  then show ?case by (auto split: if_splits)
next
  case (3 pc node d cs rest)
  then show ?case
    by (auto split: if_splits option.splits simp: findRecursive_None_iff)
qed

lemma findRecursive_deepest:
  "nestedScopes pc node ss \<Longrightarrow> findRecursive pc node ss = Some s \<Longrightarrow>
   \<exists>d. (d, s) \<in> set (coveringSymbols pc node n ss) \<and>
       (\<forall>(d', s') \<in> set (coveringSymbols pc node n ss). d' \<le> d \<and> (d' = d \<longrightarrow> s' = s))"
proof (induction pc node ss arbitrary: n s rule: findRecursive.induct)
  case (1 pc node)
  then show ?case by simp
next
  case (2 pc node d rest)
  show ?case
  proof (cases "covers pc node (BaseSymbol d)")
    case True
    then have s: "s = BaseSymbol d" using 2 by simp
    have "coveringSymbols pc node n rest = []"
      using 2 True nestedScopes_no_cover by simp
    then show ?thesis using True s by simp
  next
    case False
    then show ?thesis using 2 by simp
  qed
next
  case (3 pc node d cs rest)
  show ?case
  proof (cases "covers pc node (ScopedSymbol d cs)")
    case True
    have rest: "coveringSymbols pc node n rest = []"
      using 3 True nestedScopes_no_cover by simp
    have ncs: "nestedScopes pc node cs" using 3 by simp
    show ?thesis
    proof (cases "findRecursive pc node cs")
      case None
      then have s: "s = ScopedSymbol d cs" using 3 True by simp
      have "coveringSymbols pc node (Suc n) cs = []"
        using None ncs nestedScopes_no_cover findRecursive_None_iff by blast
      then show ?thesis using True s rest by simp
    next
      case (Some child)
      then have s: "s = child" using 3 True by simp
      from "3.IH"(1) [OF True ncs Some, of "Suc n"] obtain dd where
        dd: "(dd, child) \<in> set (coveringSymbols pc node (Suc n) cs)"
            "\<forall>(d', s') \<in> set (coveringSymbols pc node (Suc n) cs).
               d' \<le> dd \<and> (d' = dd \<longrightarrow> s' = child)"
        by blast
      have "Suc n \<le> dd" using dd(1) coveringSymbols_depth_ge by blast
      then show ?thesis using True s rest dd by (intro exI [of _ dd]) auto
    qed
  next
    case False
    have "coveringSymbols pc node (Suc n) cs = []"
      using 3 False coveringSymbols_empty_any_depth [of pc node 0 cs "Suc n"] by simp
    then show ?thesis using 3 False by simp
  qed
qed

lemma covers_properlyContains:
  "covers properlyContains node s \<longleftrightarrow>
     (\<exists>c. contextOf s = Some c
        \<and> fst (getSourceInterval c) \<le> fst (getSourceInterval node)
        \<and> snd (getSourceInterval node) \<le> snd (getSourceInterval c))"
  by (auto simp: covers_def properlyContains_def split: option.splits)

text \<open>
  Claim C5, as the code has it. The test of the search is the library's
  \<^verbatim>\<open>properlyContains\<close>, which is containment that is not strict: a symbol covers the
  node when its interval starts no later and ends no earlier than the node's, so an
  interval equal to the node's counts. \<^verbatim>\<open>symbolContainingContext\<close> returns
  \<^verbatim>\<open>undefined\<close> exactly when no child of the table has a context whose interval
  contains the interval of the node in this sense. When it returns a symbol, the symbol
  is in the table, its interval contains the node's and the interval of none of its
  children does; and where the scopes are nested around the node, it is the most deeply
  nested symbol of all those whose interval contains the node's, and the only one at
  that depth. (With nested scopes, nothing at all contains the node when the result is
  \<^verbatim>\<open>undefined\<close>.)
\<close>

theorem symbolContainingContext_innermost:
  "(covers properlyContains node s0 \<longleftrightarrow>
      (\<exists>c. contextOf s0 = Some c
         \<and> fst (getSourceInterval c) \<le> fst (getSourceInterval node)
         \<and> snd (getSourceInterval node) \<le> snd (getSourceInterval c)))
   \<and> (symbolContainingContext properlyContains T node = None
      \<longleftrightarrow> list_all (\<lambda>s. \<not> covers properlyContains node s) (children T))
   \<and> (\<forall>s. symbolContainingContext properlyContains T node = Some s \<longrightarrow>
          covers properlyContains node s
          \<and> (\<exists>d. (d, s) \<in> set (coveringSymbols properlyContains node 1 (children T)))
          \<and> list_all (\<lambda>c. \<not> covers properlyContains node c) (symChildren s)
          \<and> (nestedScopes properlyContains node (children T) \<longrightarrow>
               (\<exists>d. (d, s) \<in> set (coveringSymbols properlyContains node 1 (children T))
                  \<and> (\<forall>(d', s') \<in> set (coveringSymbols properlyContains node 1 (children T)).
                        d' \<le> d \<and> (d' = d \<longrightarrow> s' = s)))))
   \<and> (nestedScopes properlyContains node (children T)
        \<and> symbolContainingContext properlyContains T node = None
        \<longrightarrow> coveringSymbols properlyContains node 1 (children T) = [])"
proof (intro conjI allI impI)
  show "covers properlyContains node s0 \<longleftrightarrow>
      (\<exists>c. contextOf s0 = Some c
         \<and> fst (getSourceInterval c) \<le> fst (getSourceInterval node)
         \<and> snd (getSourceInterval node) \<le> snd (getSourceInterval c))"
    by (rule covers_properlyContains)
next
  show "symbolContainingContext properlyContains T node = None
      \<longleftrightarrow> list_all (\<lambda>s. \<not> covers properlyContains node s) (children T)"
    by (simp add: symbolContainingContext_def findRecursive_None_iff)
next
  fix s assume "symbolContainingContext properlyContains T node = Some s"
  then show "covers properlyContains node s"
    by (simp add: symbolContainingContext_def findRecursive_Some_covers)
next
  fix s assume "symbolContainingContext properlyContains T node = Some s"
  then show "\<exists>d. (d, s) \<in> set (coveringSymbols properlyContains node 1 (children T))"
    by (simp add: symbolContainingContext_def findRecursive_Some_member)
next
  fix s assume "symbolContainingContext properlyContains T node = Some s"
  then show "list_all (\<lambda>c. \<not> covers properlyContains node c) (symChildren s)"
    by (simp add: symbolContainingContext_def findRecursive_Some_no_child_covers)
next
  fix s assume "symbolContainingContext properlyContains T node = Some s"
    and "nestedScopes properlyContains node (children T)"
  then show "\<exists>d. (d, s) \<in> set (coveringSymbols properlyContains node 1 (children T))
                  \<and> (\<forall>(d', s') \<in> set (coveringSymbols properlyContains node 1 (children T)).
                        d' \<le> d \<and> (d' = d \<longrightarrow> s' = s))"
    using findRecursive_deepest [of properlyContains node "children T" s 1]
    by (simp add: symbolContainingContext_def)
next
  assume "nestedScopes properlyContains node (children T)
        \<and> symbolContainingContext properlyContains T node = None"
  then show "coveringSymbols properlyContains node 1 (children T) = []"
    using nestedScopes_no_cover [of properlyContains node "children T" 1]
    by (simp add: symbolContainingContext_def findRecursive_None_iff)
qed

theorem symbolContainingContext_innermost_witness:
  "nestedScopes properlyContains targetNode (children nestedTable)
   \<and> children nestedTable = [scopeA, siblingOfA]
   \<and> symChildren scopeA = [scopeB]
   \<and> symbolContainingContext properlyContains nestedTable targetNode = Some scopeB
   \<and> coveringSymbols properlyContains targetNode 1 (children nestedTable)
       = [(1, scopeA), (2, scopeB)]
   \<and> covers properlyContains targetNode scopeB
   \<and> nestedScopes properlyContains (nodeAt (40, 41) ''y'' 0 1) (children nestedTable)
   \<and> symbolContainingContext properlyContains nestedTable (nodeAt (40, 41) ''y'' 0 1) = None"
  using symbolContainingContext_innermost [of targetNode scopeB nestedTable]
    symbolContainingContext_innermost [of "nodeAt (40, 41) ''y'' 0 1" scopeB nestedTable]
  by (simp add: symbolContainingContext_def covers_def properlyContains_def example_defs)

text \<open>
  Claim C5 as stated fails. Containment is not strict: for a node on the tokens 5 to
  15, the interval of scope B itself, the only interval that strictly contains the
  node's is that of A and the claim gives A, but the code returns B; for a node on the
  tokens 0 to 20, the interval of A, no child's interval strictly contains the node's
  and the claim gives \<^verbatim>\<open>undefined\<close>, but the code returns A. And where scopes are
  not nested the result is not the most deeply nested symbol: with the siblings X and Y
  on the same tokens, Z inside Y contains the node at depth 2, but the code returns X,
  at depth 1.
\<close>

theorem symbolContainingContext_strict_counterexample:
  "map_option getSourceInterval (contextOf scopeA) = Some (0, 20)
   \<and> map_option getSourceInterval (contextOf scopeB) = Some (5, 15)
   \<and> map_option getSourceInterval (contextOf siblingOfA) = Some (21, 30)
   \<and> symbolContainingContext properlyContains nestedTable (nodeAt (5, 15) ''x'' 0 1) = Some scopeB
   \<and> symbolContainingContext properlyContains nestedTable (nodeAt (0, 20) ''x'' 0 1) = Some scopeA
   \<and> children overlapTable = [scopeX, scopeY]
   \<and> coveringSymbols properlyContains targetNode 1 (children overlapTable)
       = [(1, scopeX), (1, scopeY), (2, symbolZ)]
   \<and> symbolContainingContext properlyContains overlapTable targetNode = Some scopeX"
  by (simp add: symbolContainingContext_def covers_def properlyContains_def example_defs)

section \<open>Clearing a table\<close>

lemma resolveSync_cleared:
  "resolveSync (ContextSymbolTable n ow tr [] [] refs na pa la pp lp) nm localOnly = None"
  by simp

lemma clear_calls:
  "snd (clear T) =
     (case owner T of
        None \<Rightarrow> []
      | Some ow \<Rightarrow> map (\<lambda>depOwner. (ow, depOwner)) (List.map_filter owner (dependencies T)))"
proof (cases "owner T")
  case None
  then show ?thesis by (simp add: clear_def)
next
  case (Some ow)
  have "concat (map (\<lambda>dep. case owner dep of Some depOwner \<Rightarrow> [(ow, depOwner)] | None \<Rightarrow> []) ds)
        = map (\<lambda>depOwner. (ow, depOwner)) (List.map_filter owner ds)" for ds
    by (induction ds) (simp_all split: option.splits)
  then show ?thesis using Some by (simp add: clear_def)
qed

text \<open>
  Claim C6. After \<^verbatim>\<open>clear()\<close> every lookup is absent for every name (and so for
  every symbol defined before), the five caches and the reference counter are empty and
  the table has no dependencies. The notifications made are, in order, one call of
  \<^verbatim>\<open>removeDependency\<close> on the owner of the table for each dependency that has an
  owner, with that owner as argument: the edge between the two owners is dropped. No
  call is made when the table has no owner, none for a dependency without an owner,
  and none when the table has no dependencies; clearing a cleared table makes no call
  and changes nothing.
\<close>

theorem clear_resets_table:
  "resolveSync (fst (clear T)) nm localOnly = None
   \<and> getSymbolOfType (fst (clear T)) nm knd localOnly = None
   \<and> symbolExists (fst (clear T)) nm knd localOnly = False
   \<and> symbolExistsInGroup (fst (clear T)) nm grp localOnly = False
   \<and> contextForSymbol (fst (clear T)) nm knd localOnly = None
   \<and> getSymbolInfo h (fst (clear T)) (Inl nm) = None
   \<and> getAllSymbolsSync (fst (clear T)) t localOnly = []
   \<and> symbolContainingContext pc (fst (clear T)) node = None
   \<and> namedActions (fst (clear T)) = [] \<and> parserActions (fst (clear T)) = []
   \<and> lexerActions (fst (clear T)) = [] \<and> parserPredicates (fst (clear T)) = []
   \<and> lexerPredicates (fst (clear T)) = []
   \<and> symbolReferences (fst (clear T)) = [] \<and> getReferenceCount (fst (clear T)) nm = 0
   \<and> children (fst (clear T)) = [] \<and> dependencies (fst (clear T)) = []
   \<and> owner (fst (clear T)) = owner T
   \<and> snd (clear T) =
       (case owner T of
          None \<Rightarrow> []
        | Some ow \<Rightarrow> map (\<lambda>depOwner. (ow, depOwner)) (List.map_filter owner (dependencies T)))
   \<and> snd (clear (ContextSymbolTable n None tr ch deps refs na pa la pp lp)) = []
   \<and> snd (clear (ContextSymbolTable n ow tr ch [] refs na pa la pp lp)) = []
   \<and> clear (fst (clear T)) = (fst (clear T), [])"
proof -
  have r: "resolveSync (fst (clear T)) nm' l' = None" for nm' l'
    by (simp add: clear_def)
  have g: "getSymbolOfType (fst (clear T)) nm knd localOnly = None"
    by (cases knd) (simp_all add: getSymbolOfType_def r)
  have e: "symbolExists (fst (clear T)) nm' k' localOnly = False" for nm' k'
  proof (cases k')
    case TokenVocab
    then show ?thesis by (simp add: symbolExists_def getSymbolOfType_def r)
  qed (simp_all add: symbolExists_def getSymbolOfType_def r)
  have grp: "symbolExistsInGroup (fst (clear T)) nm grp localOnly = False"
    by (cases grp) (simp_all add: e)
  have c: "clear (fst (clear T)) = (fst (clear T), [])"
    by (cases "owner T") (simp_all add: clear_def)
  show ?thesis
    using r g e grp c clear_calls [of T]
    by (simp add: contextForSymbol_def getSymbolInfo_def symbolContainingContext_def
        getReferenceCount_def) (simp add: clear_def split: option.splits)
qed

lemma clear_example:
  "dependencies parserTable = [lexerTable]
   \<and> resolveSync parserTable ''expr'' True \<noteq> None
   \<and> resolveSync (fst (clear parserTable)) ''expr'' True = None
   \<and> snd (clear parserTable) = [(parserFile, lexerFile)]
   \<and> dependencies ownerlessTable = [lexerTable]
   \<and> snd (clear ownerlessTable) = []"
  by (simp add: clear_def example_defs)

section \<open>The order of the top-level listing\<close>





lemma getAllSymbolsSync_local:
  "getAllSymbolsSync T t True = map (\<lambda>s. (s, owner T)) (filter (\<lambda>s. instanceOf s t) (children T))"
  by (cases T) simp









lemma listTopLevelSymbols_mixed_example:
  "map nameOf (children mixedTable) = [''expr'', ''PLUS'', ''ISLAND'', ''Lexer'', ''EOF'']
   \<and> map name (listTopLevelSymbols sampleHelpers mixedTable True)
       = [''Lexer'', ''EOF'', ''PLUS'', ''ISLAND'', ''expr'']"
  by (simp add: listTopLevelSymbols_def symbolsOfType_def symbolInfoOf_def tokenVocabInfo_def
      example_defs)

section \<open>Occurrences and owners\<close>

lemma symbolOccurrences_no_owner: "symbolOccurrences h nm (s, None) = []"
  by (simp add: symbolOccurrences_def)

lemma symbolOccurrences_source:
  "r \<in> set (symbolOccurrences h nm (s, Some ow)) \<Longrightarrow> source r = fileName ow \<and> name r = nm"
  by (auto simp: symbolOccurrences_def Let_def split: option.splits if_splits)

lemma tableOccurrences_no_owner: "owner t = None \<Longrightarrow> tableOccurrences h nm t = []"
  by (simp add: tableOccurrences_def symbolOccurrences_no_owner)

lemma tableOccurrences_source:
  "r \<in> set (tableOccurrences h nm t) \<Longrightarrow> \<exists>ow. owner t = Some ow \<and> source r = fileName ow"
proof (cases "owner t")
  case None
  assume "r \<in> set (tableOccurrences h nm t)"
  then show ?thesis using None by (simp add: tableOccurrences_no_owner)
next
  case (Some ow)
  assume "r \<in> set (tableOccurrences h nm t)"
  then show ?thesis
    using Some symbolOccurrences_source [of r h nm _ ow]
    by (auto simp: tableOccurrences_def)
qed

lemma concat_map_concat_lists:
  "concat (map f (concat xss)) = concat (map (\<lambda>xs. concat (map f xs)) xss)"
  by (induction xss) simp_all

lemma getAllSymbolsSync_all_tables:
  "getAllSymbolsSync T BaseSymbolCtor False =
     concat (map (\<lambda>t. map (\<lambda>s. (s, owner t)) (children t)) (allTables T))"
proof (induction T BaseSymbolCtor False rule: getAllSymbolsSync.induct)
  case (1 n ow tr ch deps refs na pa la pp lp)
  have eq: "concat (map (\<lambda>d. getAllSymbolsSync d BaseSymbolCtor False) deps) =
        concat (map (\<lambda>d. concat (map (\<lambda>t. map (\<lambda>s. (s, owner t)) (children t)) (allTables d))) deps)"
    using 1 by (auto intro!: arg_cong [where f = concat])
  show ?case
    by (simp add: eq concat_map_concat_lists comp_def)
qed

lemma getSymbolOccurrences_local:
  "getSymbolOccurrences h T nm True = tableOccurrences h nm T"
  by (simp add: getSymbolOccurrences_def tableOccurrences_def getAllSymbolsSync_local comp_def)

lemma getSymbolOccurrences_all_tables:
  "getSymbolOccurrences h T nm False = concat (map (tableOccurrences h nm) (allTables T))"
proof -
  have t: "tableOccurrences h nm =
      (\<lambda>t. concat (map (\<lambda>s. symbolOccurrences h nm (s, owner t)) (children t)))"
    by (rule ext) (simp add: tableOccurrences_def)
  show ?thesis
    by (simp add: getSymbolOccurrences_def t getAllSymbolsSync_all_tables
        concat_map_concat_lists comp_def)
qed

lemma allTables_self: "T \<in> set (allTables T)"
  by (cases T) simp

text \<open>
  Claim C10. \<^verbatim>\<open>getSymbolOccurrences\<close> reports nothing for a symbol whose root table
  has no owner, neither the symbol nor its nested references, and every record it
  builds for a symbol of an owned table carries the file name of that owner. A local
  query returns the occurrences of the table itself, any other query those of the
  table and of its dependencies, table by table; a table without an owner contributes
  none, so every record that is returned carries the file name of the owner of one of
  these tables.
\<close>

theorem getSymbolOccurrences_needs_owner:
  "symbolOccurrences h nm (s, None) = []
   \<and> (\<forall>r \<in> set (symbolOccurrences h nm (s, Some ow)). source r = fileName ow \<and> name r = nm)
   \<and> getSymbolOccurrences h T nm True = tableOccurrences h nm T
   \<and> getSymbolOccurrences h T nm False = concat (map (tableOccurrences h nm) (allTables T))
   \<and> (owner T = None \<longrightarrow>
        tableOccurrences h nm T = [] \<and> getSymbolOccurrences h T nm True = [])
   \<and> (\<forall>r \<in> set (getSymbolOccurrences h T nm localOnly).
        \<exists>t \<in> set (allTables T). \<exists>ow'. owner t = Some ow' \<and> source r = fileName ow')"
proof -
  have last: "\<exists>t \<in> set (allTables T). \<exists>ow'. owner t = Some ow' \<and> source r = fileName ow'"
    if r: "r \<in> set (getSymbolOccurrences h T nm localOnly)" for r
  proof (cases localOnly)
    case True
    then have "r \<in> set (tableOccurrences h nm T)"
      using r by (simp add: getSymbolOccurrences_local)
    then show ?thesis using tableOccurrences_source allTables_self by blast
  next
    case False
    then obtain t where "t \<in> set (allTables T)" "r \<in> set (tableOccurrences h nm t)"
      using r by (auto simp: getSymbolOccurrences_all_tables)
    then show ?thesis using tableOccurrences_source by blast
  qed
  show ?thesis
    using last symbolOccurrences_source [of _ h nm s ow]
    by (simp add: symbolOccurrences_no_owner getSymbolOccurrences_local
        getSymbolOccurrences_all_tables tableOccurrences_no_owner)
qed

theorem getSymbolOccurrences_needs_owner_witness:
  "owner ownerlessTable = None
   \<and> children ownerlessTable = [exprRule]
   \<and> getAllNestedSymbolsSync exprRule ''PLUS'' = [plusReference]
   \<and> getSymbolOccurrences sampleHelpers ownerlessTable ''PLUS'' True = []
   \<and> map source (symbolOccurrences sampleHelpers ''PLUS'' (exprRule, Some parserFile))
       = [''Parser.g4'']
   \<and> map source (getSymbolOccurrences sampleHelpers ownerlessTable ''PLUS'' False)
       = [''Lexer.g4'']
   \<and> map (\<lambda>t. map_option fileName (owner t)) (allTables ownerlessTable)
       = [None, Some ''Lexer.g4'']"
  using getSymbolOccurrences_needs_owner
    [of sampleHelpers "''PLUS''" exprRule parserFile ownerlessTable False]
  by (simp add: getSymbolOccurrences_def tableOccurrences_def symbolOccurrences_def childAt_def
      Let_def example_defs)

end
